theory Spec2Isabelle
  imports Complex_Main "HOL-Library.Sublist"
begin

section \<open>JavaScript strings\<close>


text \<open>The line terminators that \<open>.\<close> of a regular expression does not match.\<close>

definition isLineTerminator :: "char \<Rightarrow> bool" where
  "isLineTerminator c = (of_char c \<in> {10, 13 :: nat})"

text \<open>
  \<open>String.prototype.toLowerCase\<close> on Latin-1: A to Z, and the accented capitals
  U+00C0 to U+00DE without the multiplication sign U+00D7, move up by 32.
\<close>

definition lowerChar :: "char \<Rightarrow> char" where
  "lowerChar c =
     (let n = (of_char c :: nat)
      in if (65 \<le> n \<and> n \<le> 90) \<or> (192 \<le> n \<and> n \<le> 222 \<and> n \<noteq> 215)
         then char_of (n + 32) else c)"

definition toLowerCase :: "string \<Rightarrow> string" where
  "toLowerCase s = map lowerChar s"



definition startsWith :: "string \<Rightarrow> string \<Rightarrow> bool" where
  "startsWith s p = prefix p s"

definition endsWith :: "string \<Rightarrow> string \<Rightarrow> bool" where
  "endsWith s p = suffix p s"

definition includes_str :: "string \<Rightarrow> string \<Rightarrow> bool" where
  "includes_str s sub = sublist sub s"

text \<open>\<open>s.charCodeAt(i)\<close> is NaN out of range; NaN fails every comparison.\<close>

definition charCodeAt :: "string \<Rightarrow> nat \<Rightarrow> nat option" where
  "charCodeAt s i = (if i < length s then Some (of_char (s ! i)) else None)"

definition codeBetween :: "nat \<Rightarrow> nat option \<Rightarrow> nat \<Rightarrow> bool" where
  "codeBetween lo c hi = (case c of None \<Rightarrow> False | Some n \<Rightarrow> lo \<le> n \<and> n \<le> hi)"

text \<open>
  \<open>s.replace(/ \(.*\)$/, "")\<close>. The expression has no global flag, so the leftmost
  match is removed. A match at a position is the rest of the string from there: a
  space, an opening parenthesis, any characters but line terminators, and a closing
  parenthesis that is the last character of the string.
\<close>

definition matchesParenthetical :: "string \<Rightarrow> bool" where
  "matchesParenthetical s =
     (case s of
        a # b # rest \<Rightarrow>
          a = CHR '' '' \<and> b = CHR ''('' \<and> rest \<noteq> [] \<and> last rest = CHR '')'' \<and>
          \<not> list_ex isLineTerminator (butlast rest)
      | _ \<Rightarrow> False)"

fun stripParenthetical :: "string \<Rightarrow> string" where
  "stripParenthetical [] = []"
| "stripParenthetical (c # cs) =
     (if matchesParenthetical (c # cs) then [] else c # stripParenthetical cs)"

text \<open>\<open>String(n)\<close> for a non-negative integer: its decimal digits.\<close>

fun String_of_nat :: "nat \<Rightarrow> string" where
  "String_of_nat n =
     (if n < 10 then [char_of (48 + n)]
      else String_of_nat (n div 10) @ [char_of (48 + n mod 10)])"

declare String_of_nat.simps [simp del]

fun join :: "string list \<Rightarrow> string \<Rightarrow> string" where
  "join [] sep = []"
| "join [x] sep = x"
| "join (x # y # ys) sep = x @ sep @ join (y # ys) sep"

section \<open>channelSelection.ts: name normalization\<close>


section \<open>Shared data: results, events, the page\<close>

record ChannelSelectorResult =
  success :: bool
  reason :: "string option"

record ClickTarget =
  click_x :: real
  click_y :: real

text \<open>
  A resolved profile: \<open>channelSelection.strategy\<close>, \<open>channelSelection.playSelector\<close>
  and \<open>channelSelector\<close>. A \<open>ResolvedSiteProfile\<close> may have no channel selector; a
  \<open>ChannelSelectionProfile\<close> is the same profile narrowed to one that has it.
\<close>

record ChannelSelection =
  strategy :: string
  playSelector :: "string option"

record 'sel SiteProfile =
  channelSelection :: ChannelSelection
  channelSelector :: 'sel

type_synonym ResolvedSiteProfile = "string option SiteProfile"
type_synonym ChannelSelectionProfile = "string SiteProfile"

text \<open>
  \<open>CONFIG.playback.channelSelectorDelay\<close> and \<open>CONFIG.streaming.videoTimeout\<close>: the
  configuration is not part of these files and is a parameter of the model.
\<close>

record Config =
  channelSelectorDelay :: nat
  videoTimeout :: nat

text \<open>
  What a call does to the outside world is recorded as a list of events, in order: the
  operations on the page and the lines sent to the logger.
\<close>

datatype logarg = Str string | Num nat

datatype event =
  WaitForFunction string nat
| EvaluateTile string
| EvaluatePlay string
| Delay nat
| MouseClick real real
| WaitForSelector string bool nat
| LogWarn string "logarg list"
| LogInfo string "logarg list"
| LogDebug string string "logarg list"

text \<open>
  The document as the page functions read it. An image carries the chain of its
  \<open>parentElement\<close>s, nearest first, up to the root. A bounding rectangle depends on
  the elements scrolled into view so far in the same evaluation.
\<close>

record DOMRect =
  rect_x :: real
  rect_y :: real
  rect_width :: real
  rect_height :: real

record element =
  el_id :: nat
  tagName :: string
  role :: "string option"
  onclick :: bool
  cursor :: string
  isBody :: bool

record img =
  img_id :: nat
  src :: string
  complete :: bool
  naturalWidth :: nat
  parents :: "element list"

record document =
  images :: "img list"
  querySelector :: "string \<Rightarrow> nat option"
  boundingRect :: "nat list \<Rightarrow> nat \<Rightarrow> DOMRect"

text \<open>
  The page is the environment of a call. \<open>poll_documents\<close> are the documents that the
  successive polls of \<open>waitForFunction\<close> see before its timeout, \<open>document_at k\<close> is
  the document that the k-th evaluation of the call sees, and \<open>selector_wait k\<close> tells
  whether the k-th \<open>waitForSelector\<close> of the call resolves (otherwise it rejects
  with a timeout).
\<close>

record page =
  poll_documents :: "document list"
  document_at :: "nat \<Rightarrow> document"
  selector_wait :: "nat \<Rightarrow> bool"

record run_state =
  evaluations :: nat
  selectorWaits :: nat
  events :: "event list"

definition emit :: "event \<Rightarrow> run_state \<Rightarrow> run_state" where
  "emit e st = st\<lparr>events := events st @ [e]\<rparr>"

datatype error = TypeError string | TimeoutError | OtherError string

text \<open>
  How a call of a strategy ends: it returns a result, it returns a value that is not a
  result, or it throws.
\<close>

datatype completion = Returned ChannelSelectorResult | ReturnedOther | Threw error

definition succeeded :: ChannelSelectorResult where
  "succeeded = \<lparr>success = True, reason = None\<rparr>"

definition failed :: "string \<Rightarrow> ChannelSelectorResult" where
  "failed r = \<lparr>success = False, reason = Some r\<rparr>"

section \<open>The page primitives and scrollAndClick of channelSelection.ts\<close>

text \<open>
  \<open>delay\<close> and \<open>page.mouse.click\<close> complete, and leave an event. \<open>page.waitForSelector\<close>
  resolves or rejects with a timeout as the page says for this wait; the result
  \<open>True\<close> stands for resolved, so that the \<open>catch\<close> of the source is the branch
  \<open>False\<close>.
\<close>

definition delay :: "nat \<Rightarrow> run_state \<Rightarrow> run_state" where
  "delay ms st = emit (Delay ms) st"

definition mouse_click :: "real \<Rightarrow> real \<Rightarrow> run_state \<Rightarrow> run_state" where
  "mouse_click px py st = emit (MouseClick px py) st"

definition scrollAndClick :: "ClickTarget \<Rightarrow> run_state \<Rightarrow> bool \<times> run_state" where
  "scrollAndClick target st =
     (let st1 = delay 200 st;
          st2 = mouse_click (click_x target) (click_y target) st1
      in (True, st2))"

definition waitForSelector ::
  "page \<Rightarrow> string \<Rightarrow> bool \<Rightarrow> nat \<Rightarrow> run_state \<Rightarrow> bool \<times> run_state" where
  "waitForSelector pg sel hidden timeout st =
     (selector_wait pg (selectorWaits st),
      emit (WaitForSelector sel hidden timeout) (st\<lparr>selectorWaits := Suc (selectorWaits st)\<rparr>))"

section \<open>channelSelection.ts: logAvailableChannels\<close>

text \<open>
  The preset table \<open>CHANNELS\<close> is not part of these files and is a parameter: the
  list of its entries in the order of \<open>Object.entries\<close>, each a key and a channel.
  Of a channel only its optional \<open>channelSelector\<close> is read.
\<close>

record Channel =
  channelSelector_of :: "string option"

record LogOptions =
  additionalKnownNames :: "string list option"
  availableChannels :: "string list"
  channelName :: string
  guideUrl :: string
  presetSuffix :: "string option"
  providerName :: string

definition knownSelectors ::
  "(string \<times> Channel) list \<Rightarrow> string \<Rightarrow> string list option \<Rightarrow> string list" where
  "knownSelectors CHANNELS suffix_str additional =
     filter (\<lambda>s. length s > 0)
       (map (\<lambda>(key, ch). toLowerCase (case channelSelector_of ch of None \<Rightarrow> [] | Some s \<Rightarrow> s))
         (filter (\<lambda>(key, ch). endsWith key suffix_str) CHANNELS))
     @ (case additional of None \<Rightarrow> [] | Some names \<Rightarrow> map toLowerCase names)"

text \<open>The test of one known selector against a discovered name, both lowercased.\<close>

definition selectorMatches :: "string \<Rightarrow> string \<Rightarrow> string \<Rightarrow> bool" where
  "selectorMatches lower stripped sel =
     (stripped = sel \<or>
      (startsWith lower (sel @ '' '') \<and> length lower > length sel + 1 \<and>
       codeBetween 48 (charCodeAt lower (length sel + 1)) 57))"

definition covered :: "string list \<Rightarrow> string \<Rightarrow> bool" where
  "covered known name =
     (let lower = toLowerCase name;
          stripped = stripParenthetical lower
      in list_ex (selectorMatches lower stripped) known)"

definition filteredChannels :: "(string \<times> Channel) list \<Rightarrow> LogOptions \<Rightarrow> string list" where
  "filteredChannels CHANNELS options =
     (case presetSuffix options of
        None \<Rightarrow> availableChannels options
      | Some suffix_str \<Rightarrow>
          if suffix_str = [] then availableChannels options
          else filter (\<lambda>name. \<not> covered
                  (knownSelectors CHANNELS suffix_str (additionalKnownNames options)) name)
                 (availableChannels options))"

definition countLabel :: "(string \<times> Channel) list \<Rightarrow> LogOptions \<Rightarrow> string" where
  "countLabel CHANNELS options =
     (case presetSuffix options of
        None \<Rightarrow> String_of_nat (length (filteredChannels CHANNELS options))
      | Some suffix_str \<Rightarrow>
          if suffix_str = [] then String_of_nat (length (filteredChannels CHANNELS options))
          else ''uncovered ('' @ String_of_nat (length (filteredChannels CHANNELS options)) @
               '' of '' @ String_of_nat (length (availableChannels options)) @ '')'')"

definition availableChannelsFormat :: string where
  "availableChannelsFormat =
     ''Channel \"%s\" not found in %s guide. Create a user-defined channel with one of the names below as the Channel Selector and %s as the URL. '' @
     ''Available channels (%s): %s.''"

text \<open>The function returns nothing; its effect is the list of lines it logs.\<close>

definition logAvailableChannels :: "(string \<times> Channel) list \<Rightarrow> LogOptions \<Rightarrow> event list" where
  "logAvailableChannels CHANNELS options =
     (if length (availableChannels options) = 0 then []
      else if length (filteredChannels CHANNELS options) = 0 then []
      else [LogWarn availableChannelsFormat
              [Str (channelName options), Str (providerName options), Str (guideUrl options),
               Str (countLabel CHANNELS options),
               Str (join (filteredChannels CHANNELS options) '', '')]])"

section \<open>tuning/tileClick.ts\<close>

definition MAX_PLAY_CLICK_ATTEMPTS :: nat where
  "MAX_PLAY_CLICK_ATTEMPTS = 3"

definition PLAY_CLICK_VERIFY_TIMEOUT :: nat where
  "PLAY_CLICK_VERIFY_TIMEOUT = 3000"

definition positiveArea :: "DOMRect \<Rightarrow> bool" where
  "positiveArea r = (rect_width r > 0 \<and> rect_height r > 0)"

definition center :: "DOMRect \<Rightarrow> ClickTarget" where
  "center r = \<lparr>click_x = rect_x r + rect_width r / 2, click_y = rect_y r + rect_height r / 2\<rparr>"

definition semanticClickable :: "element \<Rightarrow> bool" where
  "semanticClickable a =
     (tagName a = ''A'' \<or> tagName a = ''BUTTON'' \<or> role a = Some ''button'' \<or> onclick a)"

definition pointerCandidate :: "document \<Rightarrow> nat list \<Rightarrow> element \<Rightarrow> bool" where
  "pointerCandidate d scrolled a =
     (let rect = boundingRect d scrolled (el_id a)
      in rect_width rect > 20 \<and> rect_height rect > 20 \<and> cursor a = ''pointer'')"

text \<open>
  The walk of the \<open>while\<close> loop over the ancestors of one image. It stops at the end
  of the chain or at \<open>document.body\<close>. The result is the list of elements scrolled
  into view, the click target when a semantic ancestor returned one, and the pointer
  fallback tracked so far.
\<close>

fun walkAncestors ::
  "document \<Rightarrow> nat list \<Rightarrow> element list \<Rightarrow> element option \<Rightarrow>
     nat list \<times> ClickTarget option \<times> element option" where
  "walkAncestors d scrolled [] pointerFallback = (scrolled, None, pointerFallback)"
| "walkAncestors d scrolled (ancestor # rest) pointerFallback =
     (if isBody ancestor then (scrolled, None, pointerFallback)
      else
        let scrolled1 = (if semanticClickable ancestor then scrolled @ [el_id ancestor] else scrolled)
        in if semanticClickable ancestor \<and> positiveArea (boundingRect d scrolled1 (el_id ancestor))
           then (scrolled1, Some (center (boundingRect d scrolled1 (el_id ancestor))), pointerFallback)
           else
             let pointerFallback1 =
               (if pointerFallback = None
                then (if pointerCandidate d scrolled1 ancestor then Some ancestor else None)
                else pointerFallback)
             in walkAncestors d scrolled1 rest pointerFallback1)"

text \<open>The \<open>for\<close> loop over the images of the document: the function evaluated in the page.\<close>

fun findTile :: "document \<Rightarrow> string \<Rightarrow> nat list \<Rightarrow> img list \<Rightarrow> ClickTarget option" where
  "findTile d slug scrolled [] = None"
| "findTile d slug scrolled (im # rest) =
     (if includes_str (src im) slug
      then
        if positiveArea (boundingRect d scrolled (img_id im))
        then
          (case walkAncestors d scrolled (parents im) None of
             (scrolled1, Some target, _) \<Rightarrow> Some target
           | (scrolled1, None, Some fallback) \<Rightarrow>
               (let scrolled2 = scrolled1 @ [el_id fallback];
                    rect = boundingRect d scrolled2 (el_id fallback)
                in if positiveArea rect then Some (center rect)
                   else findTile d slug scrolled2 rest)
           | (scrolled1, None, None) \<Rightarrow> findTile d slug scrolled1 rest)
        else findTile d slug scrolled rest
      else findTile d slug scrolled rest)"

definition tileTarget :: "document \<Rightarrow> string \<Rightarrow> ClickTarget option" where
  "tileTarget d slug = findTile d slug [] (images d)"

text \<open>The function evaluated in the page on every attempt to read the play button.\<close>

definition playTarget :: "document \<Rightarrow> string \<Rightarrow> ClickTarget option" where
  "playTarget d selector =
     (case querySelector d selector of
        None \<Rightarrow> None
      | Some button \<Rightarrow>
          (let rect = boundingRect d [button] button
           in if positiveArea rect then Some (center rect) else None))"

text \<open>
  Modelled from the spec: \<open>evaluateWithAbort\<close> of \<open>utils\<close>, which is not part of these
  files. The spec describes the page evaluation boundary as a synchronous remote
  procedure call: the function and its arguments go to the live document, and the
  result (a coordinate pair or null) comes back. The two calls of the strategy are
  modelled, each reading the document of its turn.
\<close>

definition evaluateTile :: "page \<Rightarrow> string \<Rightarrow> run_state \<Rightarrow> ClickTarget option \<times> run_state" where
  "evaluateTile pg slug st =
     (tileTarget (document_at pg (evaluations st)) slug,
      emit (EvaluateTile slug) (st\<lparr>evaluations := Suc (evaluations st)\<rparr>))"

definition evaluatePlay :: "page \<Rightarrow> string \<Rightarrow> run_state \<Rightarrow> ClickTarget option \<times> run_state" where
  "evaluatePlay pg selector st =
     (playTarget (document_at pg (evaluations st)) selector,
      emit (EvaluatePlay selector) (st\<lparr>evaluations := Suc (evaluations st)\<rparr>))"

text \<open>The retry loop of the play button, from \<open>attempt\<close> on.\<close>

function playClickLoop ::
  "page \<Rightarrow> string \<Rightarrow> nat \<Rightarrow> run_state \<Rightarrow> ChannelSelectorResult \<times> run_state" where
  "playClickLoop pg playButtonSelector attempt st =
     (if attempt < MAX_PLAY_CLICK_ATTEMPTS then
        (case evaluatePlay pg playButtonSelector st of
           (None, st1) \<Rightarrow>
             if attempt > 0
             then (succeeded,
                   emit (LogDebug ''tuning:tileClick''
                           ''Play button disappeared before attempt %s. Previous click likely succeeded.''
                           [Num (attempt + 1)]) st1)
             else (failed ''Play button found but has no dimensions.'', st1)
         | (Some target, st1) \<Rightarrow>
             (case scrollAndClick target st1 of
                (_, st2) \<Rightarrow>
                  (case waitForSelector pg playButtonSelector True PLAY_CLICK_VERIFY_TIMEOUT st2 of
                     (True, st3) \<Rightarrow> (succeeded, st3)
                   | (False, st3) \<Rightarrow>
                       playClickLoop pg playButtonSelector (attempt + 1)
                         (if attempt < MAX_PLAY_CLICK_ATTEMPTS - 1
                          then emit (LogInfo
                                 ''Play button click attempt %s of %s did not dismiss the modal. Retrying with fresh coordinates.''
                                 [Num (attempt + 1), Num MAX_PLAY_CLICK_ATTEMPTS]) st3
                          else st3))))
      else
        (failed (''Play button click did not dismiss the modal after '' @
                 String_of_nat MAX_PLAY_CLICK_ATTEMPTS @ '' attempts.''), st))"
  by pat_completeness auto
termination
  by (relation "measure (\<lambda>(pg, sel, attempt, st). MAX_PLAY_CLICK_ATTEMPTS - attempt)") auto

declare playClickLoop.simps [simp del]

text \<open>
  \<open>if(playButtonSelector)\<close> holds when the selector is present and not the empty
  string.
\<close>

definition tileClickStrategyFn ::
  "Config \<Rightarrow> page \<Rightarrow> ChannelSelectionProfile \<Rightarrow> run_state \<Rightarrow> ChannelSelectorResult \<times> run_state" where
  "tileClickStrategyFn cfg pg profile st =
     (let channelSlug = channelSelector profile
      in case evaluateTile pg channelSlug st of
           (None, st1) \<Rightarrow> (failed ''Channel tile not found in page images.'', st1)
         | (Some target, st1) \<Rightarrow>
             (case scrollAndClick target st1 of
                (_, st2) \<Rightarrow>
                  (case playSelector (channelSelection profile) of
                     None \<Rightarrow> (succeeded, st2)
                   | Some playButtonSelector \<Rightarrow>
                       if playButtonSelector = [] then (succeeded, st2)
                       else
                         (case waitForSelector pg playButtonSelector False (videoTimeout cfg) st2 of
                            (False, st3) \<Rightarrow>
                              (failed ''Play button did not appear after clicking channel tile.'', st3)
                          | (True, st3) \<Rightarrow> playClickLoop pg playButtonSelector 0 st3))))"

section \<open>channelSelection.ts: the registry and selectChannel\<close>

type_synonym ChannelStrategyFn =
  "page \<Rightarrow> ChannelSelectionProfile \<Rightarrow> run_state \<Rightarrow> completion \<times> run_state"

text \<open>
  What the lookup \<open>strategies[name]\<close> can find: a function, an object with an
  \<open>execute\<close> function and a \<open>usesImageSlug\<close> flag (a \<open>ChannelStrategyEntry\<close>), or a
  member that the object literal inherits from \<open>Object.prototype\<close>.
\<close>

datatype registry_value =
  StrategyFunction ChannelStrategyFn
| StrategyEntry ChannelStrategyFn bool
| Inherited string

text \<open>
  tileClick.ts, line 203: the export of the tile strategy is an entry, with the flag set.
\<close>

definition tileClickStrategy :: "Config \<Rightarrow> registry_value" where
  "tileClickStrategy cfg =
     StrategyEntry (\<lambda>pg profile st.
        case tileClickStrategyFn cfg pg profile st of (r, st1) \<Rightarrow> (Returned r, st1)) True"

text \<open>
  The six other strategies are imported from modules that are not part of these files;
  what each import is bound to is a parameter.
\<close>

record imported_strategies =
  foxGridStrategy :: registry_value
  guideGridStrategy :: registry_value
  hboGridStrategy :: registry_value
  slingGridStrategy :: registry_value
  thumbnailRowStrategy :: registry_value
  youtubeGridStrategy :: registry_value

definition strategies :: "imported_strategies \<Rightarrow> Config \<Rightarrow> (string \<times> registry_value) list" where
  "strategies ext cfg =
     [(''foxGrid'', foxGridStrategy ext),
      (''guideGrid'', guideGridStrategy ext),
      (''hboGrid'', hboGridStrategy ext),
      (''slingGrid'', slingGridStrategy ext),
      (''thumbnailRow'', thumbnailRowStrategy ext),
      (''tileClick'', tileClickStrategy cfg),
      (''youtubeGrid'', youtubeGridStrategy ext)]"

text \<open>
  \<open>strategies\<close> is an object literal, so a lookup that finds no own property goes on
  to \<open>Object.prototype\<close>, whose members are all truthy.
\<close>

definition objectPrototypeNames :: "string list" where
  "objectPrototypeNames =
     [''constructor'', ''hasOwnProperty'', ''isPrototypeOf'', ''propertyIsEnumerable'',
      ''toLocaleString'', ''toString'', ''valueOf'', ''__proto__'',
      ''__defineGetter__'', ''__defineSetter__'', ''__lookupGetter__'', ''__lookupSetter__'']"

definition strategiesLookup :: "imported_strategies \<Rightarrow> Config \<Rightarrow> string \<Rightarrow> registry_value option" where
  "strategiesLookup ext cfg name =
     (case map_of (strategies ext cfg) name of
        Some v \<Rightarrow> Some v
      | None \<Rightarrow> if name \<in> set objectPrototypeNames then Some (Inherited name) else None)"

text \<open>
  The call \<open>strategyFn(page, profile)\<close>. Only a function can be called: calling an
  entry object throws a TypeError. Of the inherited members, called with no receiver,
  \<open>constructor\<close> returns the page and \<open>toString\<close> returns a string, neither of them a
  result; the others throw a TypeError.
\<close>

definition callStrategy ::
  "registry_value \<Rightarrow> page \<Rightarrow> ChannelSelectionProfile \<Rightarrow> run_state \<Rightarrow> completion \<times> run_state" where
  "callStrategy strategyFn pg profile st =
     (case strategyFn of
        StrategyFunction f \<Rightarrow> f pg profile st
      | StrategyEntry execute usesImageSlug \<Rightarrow> (Threw (TypeError ''strategyFn is not a function''), st)
      | Inherited name \<Rightarrow>
          if name = ''constructor'' \<or> name = ''toString'' then (ReturnedOther, st)
          else (Threw (TypeError name), st))"

text \<open>
  Modelled from the spec: the type guard \<open>isChannelSelectionProfile\<close> of \<open>types\<close>, which
  is not part of these files. The spec says that selection is a no-op when the profile
  has no selector value; the guard narrows a profile that has one.
\<close>

definition narrowProfile :: "ResolvedSiteProfile \<Rightarrow> ChannelSelectionProfile option" where
  "narrowProfile profile =
     (case channelSelector profile of
        None \<Rightarrow> None
      | Some s \<Rightarrow> Some \<lparr>channelSelection = channelSelection profile, channelSelector = s\<rparr>)"

definition isChannelSelectionProfile :: "ResolvedSiteProfile \<Rightarrow> bool" where
  "isChannelSelectionProfile profile = (narrowProfile profile \<noteq> None)"

definition skipImagePolling :: "string list" where
  "skipImagePolling = [''foxGrid'', ''guideGrid'', ''hboGrid'', ''slingGrid'', ''youtubeGrid'']"

text \<open>The predicate that \<open>waitForFunction\<close> polls in the page.\<close>

definition imageReady :: "string \<Rightarrow> document \<Rightarrow> bool" where
  "imageReady slug d =
     list_ex (\<lambda>im. src im \<noteq> [] \<and> includes_str (src im) slug \<and> complete im \<and> naturalWidth im > 0)
       (images d)"

text \<open>
  \<open>page.waitForFunction\<close> resolves when one of its polls finds the predicate true, and
  rejects with a timeout otherwise.
\<close>

definition waitForFunction ::
  "page \<Rightarrow> string \<Rightarrow> nat \<Rightarrow> run_state \<Rightarrow> (error + unit) \<times> run_state" where
  "waitForFunction pg slug timeout st =
     (if list_ex (imageReady slug) (poll_documents pg) then Inr () else Inl TimeoutError,
      emit (WaitForFunction slug timeout) st)"

text \<open>The pre-dispatch poll, with its \<open>try\<close> and its empty \<open>catch\<close>.\<close>

definition pollImage :: "Config \<Rightarrow> page \<Rightarrow> ChannelSelectionProfile \<Rightarrow> run_state \<Rightarrow> run_state" where
  "pollImage cfg pg profile st =
     (if strategy (channelSelection profile) \<notin> set skipImagePolling
      then
        (case waitForFunction pg (channelSelector profile) (channelSelectorDelay cfg) st of
           (Inr _, st1) \<Rightarrow> st1
         | (Inl _, st1) \<Rightarrow> st1)
      else st)"

definition dispatch ::
  "imported_strategies \<Rightarrow> Config \<Rightarrow> page \<Rightarrow> ChannelSelectionProfile \<Rightarrow> run_state \<Rightarrow> completion \<times> run_state" where
  "dispatch ext cfg pg profile st =
     (case strategiesLookup ext cfg (strategy (channelSelection profile)) of
        None \<Rightarrow>
          (Returned (failed ''Unknown channel selection strategy.''),
           emit (LogWarn ''Unknown channel selection strategy: %s.''
                   [Str (strategy (channelSelection profile))]) st)
      | Some strategyFn \<Rightarrow> callStrategy strategyFn pg profile st)"

definition selectChannel ::
  "imported_strategies \<Rightarrow> Config \<Rightarrow> page \<Rightarrow> ResolvedSiteProfile \<Rightarrow> run_state \<Rightarrow> completion \<times> run_state" where
  "selectChannel ext cfg pg profile st =
     (if strategy (channelSelection profile) = ''none'' \<or> \<not> isChannelSelectionProfile profile
      then (Returned succeeded, st)
      else
        (case narrowProfile profile of
           None \<Rightarrow> (Returned succeeded, st)
         | Some narrowed \<Rightarrow> dispatch ext cfg pg narrowed (pollImage cfg pg narrowed st)))"

section \<open>Notions used in the statements\<close>


text \<open>
  An attempt of the retry loop is one read of the play button: the attempts of a run are
  counted by its \<open>EvaluatePlay\<close> events, its clicks by its \<open>MouseClick\<close> events.
\<close>

fun isEvaluatePlay :: "event \<Rightarrow> bool" where
  "isEvaluatePlay (EvaluatePlay _) = True"
| "isEvaluatePlay _ = False"

fun isMouseClick :: "event \<Rightarrow> bool" where
  "isMouseClick (MouseClick _ _) = True"
| "isMouseClick _ = False"

definition playAttempts :: "event list \<Rightarrow> nat" where
  "playAttempts es = length (filter isEvaluatePlay es)"

definition mouseClicks :: "event list \<Rightarrow> nat" where
  "mouseClicks es = length (filter isMouseClick es)"

text \<open>
  The line logged before a retry, the events of one attempt that reads a target, clicks
  it and waits, the events of the tile click up to the wait for the play button, and a
  state moved on by a number of evaluations and waits and by a list of events.
\<close>

definition retryInfo :: "nat \<Rightarrow> event" where
  "retryInfo attempt = LogInfo
     ''Play button click attempt %s of %s did not dismiss the modal. Retrying with fresh coordinates.''
     [Num (attempt + 1), Num MAX_PLAY_CLICK_ATTEMPTS]"

definition attemptEvents :: "string \<Rightarrow> ClickTarget \<Rightarrow> event list" where
  "attemptEvents sel t =
     [EvaluatePlay sel, Delay 200, MouseClick (click_x t) (click_y t),
      WaitForSelector sel True PLAY_CLICK_VERIFY_TIMEOUT]"

definition advance :: "nat \<Rightarrow> nat \<Rightarrow> event list \<Rightarrow> run_state \<Rightarrow> run_state" where
  "advance e w es st =
     st\<lparr>evaluations := evaluations st + e, selectorWaits := selectorWaits st + w,
        events := events st @ es\<rparr>"

definition tileEvents :: "Config \<Rightarrow> ChannelSelectionProfile \<Rightarrow> ClickTarget \<Rightarrow> string \<Rightarrow> event list" where
  "tileEvents cfg profile t sel =
     [EvaluateTile (channelSelector profile), Delay 200, MouseClick (click_x t) (click_y t),
      WaitForSelector sel False (videoTimeout cfg)]"




text \<open>A preset with its selector lowercased.\<close>

definition lowerPreset :: "string \<times> Channel \<Rightarrow> string \<times> Channel" where
  "lowerPreset entry =
     (fst entry, \<lparr>channelSelector_of = map_option toLowerCase (channelSelector_of (snd entry))\<rparr>)"

text \<open>
  The Locate phase. \<open>walked im\<close> are the ancestors that the walk from an image visits:
  its parent chain up to, and without, \<open>document.body\<close>. \<open>scrolledAt scrolled as i\<close>
  are the elements scrolled into view when the box of the i-th of them is read, and
  \<open>scrolledAfter scrolled as\<close> those after the whole walk. The i-th ancestor is a
  semantic match when it is a semantic clickable whose box, read then, has positive
  area, and a pointer match when its box, read then, is more than 20 wide and high and
  its cursor is the pointer. An image qualifies when its source contains the slug and
  its box has positive area.
\<close>

definition walked :: "img \<Rightarrow> element list" where
  "walked im = takeWhile (\<lambda>e. \<not> isBody e) (parents im)"

definition scrolledAt :: "nat list \<Rightarrow> element list \<Rightarrow> nat \<Rightarrow> nat list" where
  "scrolledAt scrolled as i = scrolled @ map el_id (filter semanticClickable (take (Suc i) as))"

definition scrolledAfter :: "nat list \<Rightarrow> element list \<Rightarrow> nat list" where
  "scrolledAfter scrolled as = scrolled @ map el_id (filter semanticClickable as)"

definition semanticMatch :: "document \<Rightarrow> nat list \<Rightarrow> element list \<Rightarrow> nat \<Rightarrow> bool" where
  "semanticMatch d scrolled as i =
     (semanticClickable (as ! i) \<and>
      positiveArea (boundingRect d (scrolledAt scrolled as i) (el_id (as ! i))))"

definition pointerMatch :: "document \<Rightarrow> nat list \<Rightarrow> element list \<Rightarrow> nat \<Rightarrow> bool" where
  "pointerMatch d scrolled as i = pointerCandidate d (scrolledAt scrolled as i) (as ! i)"

definition qualifies :: "document \<Rightarrow> string \<Rightarrow> nat list \<Rightarrow> img \<Rightarrow> bool" where
  "qualifies d slug scrolled im =
     (includes_str (src im) slug \<and> positiveArea (boundingRect d scrolled (img_id im)))"

section \<open>Example inputs\<close>

definition exampleRect :: DOMRect where
  "exampleRect = \<lparr>rect_x = 10, rect_y = 20, rect_width = 100, rect_height = 50\<rparr>"

text \<open>The centre of \<open>exampleRect\<close>.\<close>

definition exampleTarget :: ClickTarget where
  "exampleTarget = \<lparr>click_x = 60, click_y = 45\<rparr>"

definition exampleAnchor :: element where
  "exampleAnchor =
     \<lparr>el_id = 2, tagName = ''A'', role = None, onclick = False, cursor = ''pointer'', isBody = False\<rparr>"

definition exampleBody :: element where
  "exampleBody =
     \<lparr>el_id = 0, tagName = ''BODY'', role = None, onclick = False, cursor = ''auto'', isBody = True\<rparr>"

definition exampleImage :: img where
  "exampleImage =
     \<lparr>img_id = 1, src = ''/img/espn.png'', complete = True, naturalWidth = 300,
      parents = [exampleAnchor, exampleBody]\<rparr>"

text \<open>A document with one tile and a play button, and the document after the modal has gone.\<close>

definition exampleDocument :: document where
  "exampleDocument =
     \<lparr>images = [exampleImage],
      querySelector = (\<lambda>s. if s = ''button.play'' then Some 3 else None),
      boundingRect = (\<lambda>scrolled i. exampleRect)\<rparr>"

definition playerDocument :: document where
  "playerDocument =
     \<lparr>images = [], querySelector = (\<lambda>s. None), boundingRect = (\<lambda>scrolled i. exampleRect)\<rparr>"

text \<open>A page whose play button appears and never goes away.\<close>

definition stuckPage :: page where
  "stuckPage =
     \<lparr>poll_documents = [exampleDocument], document_at = (\<lambda>k. exampleDocument),
      selector_wait = (\<lambda>k. k = 0)\<rparr>"

text \<open>
  A page whose play button is gone at the third evaluation (the second read of the button),
  though the first verification wait timed out.
\<close>

definition racePage :: page where
  "racePage =
     \<lparr>poll_documents = [exampleDocument],
      document_at = (\<lambda>k. if k < 2 then exampleDocument else playerDocument),
      selector_wait = (\<lambda>k. k = 0)\<rparr>"

definition exampleConfig :: Config where
  "exampleConfig = \<lparr>channelSelectorDelay = 3000, videoTimeout = 10000\<rparr>"

definition initialState :: run_state where
  "initialState = \<lparr>evaluations = 0, selectorWaits = 0, events = []\<rparr>"

definition tileProfile :: ChannelSelectionProfile where
  "tileProfile =
     \<lparr>channelSelection = \<lparr>strategy = ''tileClick'', playSelector = Some ''button.play''\<rparr>,
      channelSelector = ''espn''\<rparr>"

text \<open>Imports that are plain functions, and imports of which two are entries with flags.\<close>

definition alwaysSucceeds :: ChannelStrategyFn where
  "alwaysSucceeds pg profile st = (Returned succeeded, st)"

definition exampleImports :: imported_strategies where
  "exampleImports =
     \<lparr>foxGridStrategy = StrategyFunction alwaysSucceeds,
      guideGridStrategy = StrategyFunction alwaysSucceeds,
      hboGridStrategy = StrategyFunction alwaysSucceeds,
      slingGridStrategy = StrategyFunction alwaysSucceeds,
      thumbnailRowStrategy = StrategyFunction alwaysSucceeds,
      youtubeGridStrategy = StrategyFunction alwaysSucceeds\<rparr>"


definition profileOf :: "string \<Rightarrow> string option \<Rightarrow> ResolvedSiteProfile" where
  "profileOf name sel =
     \<lparr>channelSelection = \<lparr>strategy = name, playSelector = None\<rparr>, channelSelector = sel\<rparr>"


text \<open>Presets and options of a filtered dump.\<close>

definition espnChannels :: "(string \<times> Channel) list" where
  "espnChannels =
     [(''espn-yttv'', \<lparr>channelSelector_of = Some ''ESPN''\<rparr>),
      (''local-yttv'', \<lparr>channelSelector_of = None\<rparr>),
      (''espn-hulu'', \<lparr>channelSelector_of = Some ''ESPN News''\<rparr>)]"

definition espnOptions :: LogOptions where
  "espnOptions =
     \<lparr>additionalKnownNames = None,
      availableChannels = [''ESPN'', ''ESPN 2'', ''ESPN News'', ''ESPN (West)''],
      channelName = ''espnu'', guideUrl = ''https://tv.example/guide'',
      presetSuffix = Some ''-yttv'', providerName = ''YouTube TV''\<rparr>"

text \<open>
  Images for the Locate phase: one with no clickable ancestor, one under a pointer-cursor
  container, one of another channel; a document whose first matching image has no
  clickable ancestor and whose second is the tile.
\<close>

definition plainDiv :: element where
  "plainDiv =
     \<lparr>el_id = 6, tagName = ''DIV'', role = None, onclick = False, cursor = ''auto'', isBody = False\<rparr>"

definition pointerDiv :: element where
  "pointerDiv =
     \<lparr>el_id = 8, tagName = ''DIV'', role = None, onclick = False, cursor = ''pointer'', isBody = False\<rparr>"

definition bareImage :: img where
  "bareImage =
     \<lparr>img_id = 5, src = ''/img/espn-hero.jpg'', complete = True, naturalWidth = 800,
      parents = [plainDiv, exampleBody]\<rparr>"

definition pointerImage :: img where
  "pointerImage =
     \<lparr>img_id = 9, src = ''/img/espn-tile.jpg'', complete = True, naturalWidth = 200,
      parents = [plainDiv, pointerDiv, exampleBody]\<rparr>"

definition otherImage :: img where
  "otherImage =
     \<lparr>img_id = 4, src = ''/img/cnn.png'', complete = True, naturalWidth = 300,
      parents = [exampleAnchor, exampleBody]\<rparr>"

definition twoTileDocument :: document where
  "twoTileDocument = exampleDocument\<lparr>images := [bareImage, exampleImage]\<rparr>"

definition twoTilePage :: page where
  "twoTilePage = stuckPage\<lparr>document_at := (\<lambda>k. twoTileDocument)\<rparr>"

definition autoPlayProfile :: ChannelSelectionProfile where
  "autoPlayProfile =
     \<lparr>channelSelection = \<lparr>strategy = ''tileClick'', playSelector = None\<rparr>,
      channelSelector = ''espn''\<rparr>"

section \<open>Name normalization is idempotent\<close>


lemma lowerChar_idem: "lowerChar (lowerChar c) = lowerChar c"
  by (auto simp: lowerChar_def Let_def)






lemma toLowerCase_idem: "toLowerCase (toLowerCase s) = toLowerCase s"
  by (simp add: toLowerCase_def lowerChar_idem)










section \<open>The example inputs, evaluated\<close>

lemmas example_defs = exampleRect_def exampleAnchor_def exampleBody_def exampleImage_def
  exampleDocument_def playerDocument_def stuckPage_def racePage_def exampleConfig_def
  initialState_def tileProfile_def exampleTarget_def

lemma includes_espn: "includes_str ''/img/espn.png'' ''espn''"
  unfolding includes_str_def by code_simp

lemma example_tileTarget: "tileTarget exampleDocument ''espn'' = Some exampleTarget"
  by (simp add: tileTarget_def example_defs includes_espn positiveArea_def semanticClickable_def
      center_def)

lemma example_playTarget: "playTarget exampleDocument ''button.play'' = Some exampleTarget"
  by (simp add: playTarget_def example_defs positiveArea_def center_def)

lemma player_playTarget: "playTarget playerDocument ''button.play'' = None"
  by (simp add: playTarget_def example_defs)

lemmas tile_defs = plainDiv_def pointerDiv_def bareImage_def pointerImage_def otherImage_def
  twoTileDocument_def twoTilePage_def autoPlayProfile_def

lemma includes_examples:
  "includes_str ''/img/espn-hero.jpg'' ''espn''"
  "includes_str ''/img/espn-tile.jpg'' ''espn''"
  "\<not> includes_str ''/img/cnn.png'' ''espn''"
  unfolding includes_str_def by code_simp+

lemma twoTile_target: "tileTarget twoTileDocument ''espn'' = Some exampleTarget"
  by (simp add: tileTarget_def tile_defs example_defs includes_examples includes_espn
      positiveArea_def semanticClickable_def pointerCandidate_def center_def)

section \<open>The retry loop of the play button\<close>

lemmas prim_defs = evaluatePlay_def evaluateTile_def scrollAndClick_def waitForSelector_def
  delay_def mouse_click_def emit_def

lemma playClickLoop_unfold:
  "playClickLoop pg sel attempt st =
     (if attempt < MAX_PLAY_CLICK_ATTEMPTS then
        (case playTarget (document_at pg (evaluations st)) sel of
           None \<Rightarrow>
             if attempt > 0
             then (succeeded, advance 1 0 [EvaluatePlay sel, LogDebug ''tuning:tileClick''
                       ''Play button disappeared before attempt %s. Previous click likely succeeded.''
                       [Num (attempt + 1)]] st)
             else (failed ''Play button found but has no dimensions.'', advance 1 0 [EvaluatePlay sel] st)
         | Some t \<Rightarrow>
             if selector_wait pg (selectorWaits st)
             then (succeeded, advance 1 1 (attemptEvents sel t) st)
             else playClickLoop pg sel (attempt + 1)
                    (advance 1 1 (attemptEvents sel t @
                       (if attempt < MAX_PLAY_CLICK_ATTEMPTS - 1 then [retryInfo attempt] else [])) st))
      else (failed (''Play button click did not dismiss the modal after '' @
                 String_of_nat MAX_PLAY_CLICK_ATTEMPTS @ '' attempts.''), st))"
  by (subst playClickLoop.simps)
     (simp add: prim_defs advance_def attemptEvents_def retryInfo_def split: option.splits)

lemma playClickLoop_attempts:
  "playAttempts (events (snd (playClickLoop pg sel attempt st)))
     \<le> playAttempts (events st) + (MAX_PLAY_CLICK_ATTEMPTS - attempt)"
proof (induction "MAX_PLAY_CLICK_ATTEMPTS - attempt" arbitrary: attempt st)
  case 0
  then have "\<not> attempt < MAX_PLAY_CLICK_ATTEMPTS" by simp
  then show ?case by (subst playClickLoop_unfold) simp
next
  case (Suc n)
  then have lt: "attempt < MAX_PLAY_CLICK_ATTEMPTS" and n: "n = MAX_PLAY_CLICK_ATTEMPTS - (attempt + 1)"
    by simp_all
  have ih: "playAttempts (events (snd (playClickLoop pg sel (attempt + 1) st')))
     \<le> playAttempts (events st') + (MAX_PLAY_CLICK_ATTEMPTS - (attempt + 1))" for st'
    using Suc.hyps(1) [OF n] .
  show ?case
  proof (cases "playTarget (document_at pg (evaluations st)) sel")
    case None
    with lt show ?thesis
      by (subst playClickLoop_unfold) (auto simp add: advance_def playAttempts_def)
  next
    case (Some t)
    show ?thesis
    proof (cases "selector_wait pg (selectorWaits st)")
      case True
      with lt Some show ?thesis
        by (subst playClickLoop_unfold) (auto simp add: advance_def playAttempts_def attemptEvents_def)
    next
      case False
      let ?st' = "advance 1 1 (attemptEvents sel t @
                       (if attempt < MAX_PLAY_CLICK_ATTEMPTS - 1 then [retryInfo attempt] else [])) st"
      have step: "playClickLoop pg sel attempt st = playClickLoop pg sel (attempt + 1) ?st'"
        using lt Some False by (subst playClickLoop_unfold) simp
      have "playAttempts (events ?st') = playAttempts (events st) + 1"
        by (simp add: advance_def playAttempts_def attemptEvents_def retryInfo_def)
      with ih [of ?st'] step lt show ?thesis by simp
    qed
  qed
qed

lemma tileClickStrategyFn_confirm:
  assumes "tileTarget (document_at pg (evaluations st)) (channelSelector profile) = Some t"
    and "playSelector (channelSelection profile) = Some sel" and "sel \<noteq> []"
    and "selector_wait pg (selectorWaits st)"
  shows "tileClickStrategyFn cfg pg profile st =
           playClickLoop pg sel 0 (advance 1 1 (tileEvents cfg profile t sel) st)"
  using assms by (simp add: tileClickStrategyFn_def prim_defs advance_def tileEvents_def)

lemma advance_advance: "advance e w es (advance e' w' es' st) = advance (e' + e) (w' + w) (es' @ es) st"
  by (simp add: advance_def)

lemma advance_sel [simp]:
  "evaluations (advance e w es st) = evaluations st + e"
  "selectorWaits (advance e w es st) = selectorWaits st + w"
  "events (advance e w es st) = events st @ es"
  by (simp_all add: advance_def)

lemma String_of_MAX: "String_of_nat MAX_PLAY_CLICK_ATTEMPTS = ''3''"
  unfolding MAX_PLAY_CLICK_ATTEMPTS_def by code_simp

lemma loop_retry:
  assumes "attempt < MAX_PLAY_CLICK_ATTEMPTS"
    and "playTarget (document_at pg (evaluations st)) sel = Some t"
    and "\<not> selector_wait pg (selectorWaits st)"
  shows "playClickLoop pg sel attempt st =
           playClickLoop pg sel (attempt + 1)
             (advance 1 1 (attemptEvents sel t @
                (if attempt < MAX_PLAY_CLICK_ATTEMPTS - 1 then [retryInfo attempt] else [])) st)"
  using assms by (subst playClickLoop_unfold) simp

lemma loop_dismissed:
  assumes "attempt < MAX_PLAY_CLICK_ATTEMPTS"
    and "playTarget (document_at pg (evaluations st)) sel = Some t"
    and "selector_wait pg (selectorWaits st)"
  shows "playClickLoop pg sel attempt st = (succeeded, advance 1 1 (attemptEvents sel t) st)"
  using assms by (subst playClickLoop_unfold) simp

lemma loop_vanished:
  assumes "attempt < MAX_PLAY_CLICK_ATTEMPTS"
    and "playTarget (document_at pg (evaluations st)) sel = None"
  shows "fst (playClickLoop pg sel attempt st) =
           (if attempt > 0 then succeeded else failed ''Play button found but has no dimensions.'')"
  using assms by (subst playClickLoop_unfold) simp

lemma loop_exhausted:
  assumes "\<not> attempt < MAX_PLAY_CLICK_ATTEMPTS"
  shows "playClickLoop pg sel attempt st =
           (failed ''Play button click did not dismiss the modal after 3 attempts.'', st)"
  using assms by (subst playClickLoop_unfold) (simp add: String_of_MAX)

lemma tileClickStrategyFn_attempts:
  "playAttempts (events (snd (tileClickStrategyFn cfg pg profile st)))
     \<le> playAttempts (events st) + MAX_PLAY_CLICK_ATTEMPTS"
proof (cases "tileTarget (document_at pg (evaluations st)) (channelSelector profile)")
  case None
  then show ?thesis
    by (simp add: tileClickStrategyFn_def prim_defs playAttempts_def)
next
  case (Some t)
  show ?thesis
  proof (cases "playSelector (channelSelection profile)")
    case None
    with Some show ?thesis
      by (simp add: tileClickStrategyFn_def prim_defs playAttempts_def)
  next
    case sel: (Some sel)
    show ?thesis
    proof (cases "sel \<noteq> [] \<and> selector_wait pg (selectorWaits st)")
      case False
      with Some sel show ?thesis
        by (auto simp add: tileClickStrategyFn_def prim_defs playAttempts_def Let_def)
    next
      case True
      let ?s0 = "advance 1 1 (tileEvents cfg profile t sel) st"
      have "tileClickStrategyFn cfg pg profile st = playClickLoop pg sel 0 ?s0"
        using Some sel True by (simp add: tileClickStrategyFn_confirm)
      moreover have "playAttempts (events ?s0) = playAttempts (events st)"
        by (simp add: playAttempts_def tileEvents_def)
      ultimately show ?thesis using playClickLoop_attempts [of pg sel 0 ?s0] by simp
    qed
  qed
qed

text \<open>
  C3. In the Confirm phase of the tile strategy the click-and-verify loop runs at most 3
  attempts, whatever the page does. In a run that reaches the loop (the tile is found,
  the profile has a play selector, the play button appears), in which every read of the
  button yields coordinates and no verification wait sees it disappear, the call ends in
  failure after exactly 3 attempts (and 4 clicks, the first on the tile), and the reason
  gives the attempt count 3.
\<close>

theorem tile_confirm_three_attempts:
  assumes tile: "tileTarget (document_at pg (evaluations st)) (channelSelector profile) = Some t"
    and sel: "playSelector (channelSelection profile) = Some sel" "sel \<noteq> []"
    and appears: "selector_wait pg (selectorWaits st)"
    and present: "\<forall>k<3. playTarget (document_at pg (evaluations st + 1 + k)) sel \<noteq> None"
    and stays: "\<forall>k<3. \<not> selector_wait pg (selectorWaits st + 1 + k)"
  shows "(\<forall>p s. playAttempts (events (snd (tileClickStrategyFn cfg pg p s)))
                  \<le> playAttempts (events s) + 3) \<and>
         fst (tileClickStrategyFn cfg pg profile st) =
           failed ''Play button click did not dismiss the modal after 3 attempts.'' \<and>
         playAttempts (events (snd (tileClickStrategyFn cfg pg profile st)))
           = playAttempts (events st) + 3 \<and>
         mouseClicks (events (snd (tileClickStrategyFn cfg pg profile st)))
           = mouseClicks (events st) + 4"
proof -
  obtain t0 t1 t2 where
    t0: "playTarget (document_at pg (evaluations st + 1)) sel = Some t0" and
    t1: "playTarget (document_at pg (evaluations st + 2)) sel = Some t1" and
    t2: "playTarget (document_at pg (evaluations st + 3)) sel = Some t2"
    using present [rule_format, of 0] present [rule_format, of 1] present [rule_format, of 2]
    by (auto simp: numeral_2_eq_2 numeral_3_eq_3)
  have w0: "\<not> selector_wait pg (selectorWaits st + 1)"
    and w1: "\<not> selector_wait pg (selectorWaits st + 2)"
    and w2: "\<not> selector_wait pg (selectorWaits st + 3)"
    using stays [rule_format, of 0] stays [rule_format, of 1] stays [rule_format, of 2]
    by (simp_all add: numeral_2_eq_2 numeral_3_eq_3)
  let ?s0 = "advance 1 1 (tileEvents cfg profile t sel) st"
  let ?s1 = "advance 1 1 (attemptEvents sel t0 @ [retryInfo 0]) ?s0"
  let ?s2 = "advance 1 1 (attemptEvents sel t1 @ [retryInfo 1]) ?s1"
  let ?s3 = "advance 1 1 (attemptEvents sel t2) ?s2"
  have "tileClickStrategyFn cfg pg profile st = playClickLoop pg sel 0 ?s0"
    by (rule tileClickStrategyFn_confirm [OF tile sel appears])
  also have "\<dots> = playClickLoop pg sel 1 ?s1"
    using loop_retry [of 0 pg ?s0 sel t0] t0 w0 by (simp add: MAX_PLAY_CLICK_ATTEMPTS_def)
  also have "\<dots> = playClickLoop pg sel 2 ?s2"
    using loop_retry [of 1 pg ?s1 sel t1] t1 w1
    by (simp add: MAX_PLAY_CLICK_ATTEMPTS_def numeral_2_eq_2)
  also have "\<dots> = playClickLoop pg sel 3 ?s3"
    using loop_retry [of 2 pg ?s2 sel t2] t2 w2
    by (simp add: MAX_PLAY_CLICK_ATTEMPTS_def numeral_2_eq_2 numeral_3_eq_3)
  also have "\<dots> = (failed ''Play button click did not dismiss the modal after 3 attempts.'', ?s3)"
    by (rule loop_exhausted) (simp add: MAX_PLAY_CLICK_ATTEMPTS_def)
  finally have run: "tileClickStrategyFn cfg pg profile st =
    (failed ''Play button click did not dismiss the modal after 3 attempts.'', ?s3)" .
  have bound: "\<forall>p s. playAttempts (events (snd (tileClickStrategyFn cfg pg p s)))
                  \<le> playAttempts (events s) + 3"
    using tileClickStrategyFn_attempts [of cfg pg] by (simp add: MAX_PLAY_CLICK_ATTEMPTS_def)
  have a: "playAttempts (events ?s3) = playAttempts (events st) + 3"
    by (simp add: playAttempts_def tileEvents_def attemptEvents_def retryInfo_def)
  have c: "mouseClicks (events ?s3) = mouseClicks (events st) + 4"
    by (simp add: mouseClicks_def tileEvents_def attemptEvents_def retryInfo_def)
  from run bound a c show ?thesis by simp
qed

theorem tile_confirm_three_attempts_witness:
  "fst (tileClickStrategyFn exampleConfig stuckPage tileProfile initialState) =
     failed ''Play button click did not dismiss the modal after 3 attempts.'' \<and>
   playAttempts (events (snd (tileClickStrategyFn exampleConfig stuckPage tileProfile initialState))) = 3 \<and>
   mouseClicks (events (snd (tileClickStrategyFn exampleConfig stuckPage tileProfile initialState))) = 4"
proof -
  have tile: "tileTarget (document_at stuckPage (evaluations initialState)) (channelSelector tileProfile)
      = Some exampleTarget"
    using example_tileTarget by (simp add: stuckPage_def tileProfile_def)
  have sel: "playSelector (channelSelection tileProfile) = Some ''button.play''" "''button.play'' \<noteq> []"
    by (simp_all add: tileProfile_def)
  have appears: "selector_wait stuckPage (selectorWaits initialState)"
    by (simp add: stuckPage_def initialState_def)
  have present: "\<forall>k<3. playTarget (document_at stuckPage (evaluations initialState + 1 + k)) ''button.play'' \<noteq> None"
    using example_playTarget by (simp add: stuckPage_def)
  have stays: "\<forall>k<3. \<not> selector_wait stuckPage (selectorWaits initialState + 1 + k)"
    by (simp add: stuckPage_def)
  from tile_confirm_three_attempts [OF tile sel appears present stays, of exampleConfig]
  show ?thesis by (simp add: initialState_def playAttempts_def mouseClicks_def)
qed

text \<open>
  C4. In the Confirm phase, when the read of the play button returns nothing on an attempt
  of index greater than 0, the call reports success; when it returns nothing on the first
  attempt, the call fails with the reason that the button was found but has no
  dimensions. This holds of the loop at every attempt, and of the call: the button
  missing at the first read fails, the button missing at read k (1 or 2), after k reads
  that found it and k verification waits that timed out, succeeds.
\<close>

theorem tile_confirm_vanished_button:
  assumes tile: "tileTarget (document_at pg (evaluations st)) (channelSelector profile) = Some t"
    and sel: "playSelector (channelSelection profile) = Some sel" "sel \<noteq> []"
    and appears: "selector_wait pg (selectorWaits st)"
  shows "(\<forall>attempt s. attempt < MAX_PLAY_CLICK_ATTEMPTS \<and>
             playTarget (document_at pg (evaluations s)) sel = None \<longrightarrow>
             fst (playClickLoop pg sel attempt s) =
               (if attempt > 0 then succeeded
                else failed ''Play button found but has no dimensions.'')) \<and>
         (playTarget (document_at pg (evaluations st + 1)) sel = None \<longrightarrow>
            fst (tileClickStrategyFn cfg pg profile st) =
              failed ''Play button found but has no dimensions.'') \<and>
         (\<forall>k. 0 < k \<and> k < MAX_PLAY_CLICK_ATTEMPTS \<and>
              (\<forall>j<k. playTarget (document_at pg (evaluations st + 1 + j)) sel \<noteq> None \<and>
                     \<not> selector_wait pg (selectorWaits st + 1 + j)) \<and>
              playTarget (document_at pg (evaluations st + 1 + k)) sel = None \<longrightarrow>
              fst (tileClickStrategyFn cfg pg profile st) = succeeded)"
proof (intro conjI allI impI)
  fix attempt and s :: run_state
  assume "attempt < MAX_PLAY_CLICK_ATTEMPTS \<and> playTarget (document_at pg (evaluations s)) sel = None"
  then show "fst (playClickLoop pg sel attempt s) =
               (if attempt > 0 then succeeded
                else failed ''Play button found but has no dimensions.'')"
    by (simp add: loop_vanished)
next
  let ?s0 = "advance 1 1 (tileEvents cfg profile t sel) st"
  assume "playTarget (document_at pg (evaluations st + 1)) sel = None"
  then have "fst (playClickLoop pg sel 0 ?s0) = failed ''Play button found but has no dimensions.''"
    using loop_vanished [of 0 pg ?s0 sel] by (simp add: MAX_PLAY_CLICK_ATTEMPTS_def)
  then show "fst (tileClickStrategyFn cfg pg profile st) =
              failed ''Play button found but has no dimensions.''"
    by (simp add: tileClickStrategyFn_confirm [OF tile sel appears])
next
  fix k
  assume h: "0 < k \<and> k < MAX_PLAY_CLICK_ATTEMPTS \<and>
              (\<forall>j<k. playTarget (document_at pg (evaluations st + 1 + j)) sel \<noteq> None \<and>
                     \<not> selector_wait pg (selectorWaits st + 1 + j)) \<and>
              playTarget (document_at pg (evaluations st + 1 + k)) sel = None"
  let ?s0 = "advance 1 1 (tileEvents cfg profile t sel) st"
  have start: "tileClickStrategyFn cfg pg profile st = playClickLoop pg sel 0 ?s0"
    by (rule tileClickStrategyFn_confirm [OF tile sel appears])
  from h obtain t0 where t0: "playTarget (document_at pg (evaluations st + 1)) sel = Some t0"
    and w0: "\<not> selector_wait pg (selectorWaits st + 1)"
    by (auto dest: spec [of _ 0])
  let ?s1 = "advance 1 1 (attemptEvents sel t0 @ [retryInfo 0]) ?s0"
  have one: "playClickLoop pg sel 0 ?s0 = playClickLoop pg sel 1 ?s1"
    using loop_retry [of 0 pg ?s0 sel t0] t0 w0 by (simp add: MAX_PLAY_CLICK_ATTEMPTS_def)
  from h have "k = 1 \<or> k = 2" by (auto simp: MAX_PLAY_CLICK_ATTEMPTS_def)
  then show "fst (tileClickStrategyFn cfg pg profile st) = succeeded"
  proof
    assume k: "k = 1"
    with h have "playTarget (document_at pg (evaluations ?s1)) sel = None"
      by (simp add: numeral_2_eq_2)
    then have "fst (playClickLoop pg sel 1 ?s1) = succeeded"
      using loop_vanished [of 1 pg ?s1 sel] by (simp add: MAX_PLAY_CLICK_ATTEMPTS_def)
    with start one show ?thesis by simp
  next
    assume k: "k = 2"
    with h obtain t1 where t1: "playTarget (document_at pg (evaluations st + 2)) sel = Some t1"
      and w1: "\<not> selector_wait pg (selectorWaits st + 2)"
      by (auto dest: spec [of _ 1] simp: numeral_2_eq_2)
    let ?s2 = "advance 1 1 (attemptEvents sel t1 @ [retryInfo 1]) ?s1"
    have two: "playClickLoop pg sel 1 ?s1 = playClickLoop pg sel 2 ?s2"
      using loop_retry [of 1 pg ?s1 sel t1] t1 w1
      by (simp add: MAX_PLAY_CLICK_ATTEMPTS_def numeral_2_eq_2)
    from k h have "playTarget (document_at pg (evaluations ?s2)) sel = None"
      by (simp add: numeral_2_eq_2 numeral_3_eq_3)
    then have "fst (playClickLoop pg sel 2 ?s2) = succeeded"
      using loop_vanished [of 2 pg ?s2 sel] by (simp add: MAX_PLAY_CLICK_ATTEMPTS_def)
    with start one two show ?thesis by simp
  qed
qed

theorem tile_confirm_vanished_button_witness:
  "fst (playClickLoop racePage ''button.play'' 1
          \<lparr>evaluations = 2, selectorWaits = 2, events = []\<rparr>) = succeeded \<and>
   fst (tileClickStrategyFn exampleConfig racePage tileProfile initialState) = succeeded \<and>
   fst (tileClickStrategyFn exampleConfig
          (racePage\<lparr>document_at := (\<lambda>k. if k < 1 then exampleDocument else playerDocument)\<rparr>)
          tileProfile initialState) = failed ''Play button found but has no dimensions.''"
proof -
  let ?firstPage = "racePage\<lparr>document_at := (\<lambda>k. if k < 1 then exampleDocument else playerDocument)\<rparr>"
  have tile: "tileTarget (document_at racePage (evaluations initialState)) (channelSelector tileProfile)
      = Some exampleTarget"
    using example_tileTarget by (simp add: racePage_def tileProfile_def initialState_def)
  have tile': "tileTarget (document_at ?firstPage (evaluations initialState)) (channelSelector tileProfile)
      = Some exampleTarget"
    using example_tileTarget by (simp add: racePage_def tileProfile_def initialState_def)
  have sel: "playSelector (channelSelection tileProfile) = Some ''button.play''" "''button.play'' \<noteq> []"
    by (simp_all add: tileProfile_def)
  have appears: "selector_wait racePage (selectorWaits initialState)"
    by (simp add: racePage_def initialState_def)
  have appears': "selector_wait ?firstPage (selectorWaits initialState)"
    by (simp add: racePage_def initialState_def)
  note main = tile_confirm_vanished_button [OF tile sel appears, of exampleConfig]
  note first = tile_confirm_vanished_button [OF tile' sel appears', of exampleConfig]
  have a: "fst (playClickLoop racePage ''button.play'' 1
          \<lparr>evaluations = 2, selectorWaits = 2, events = []\<rparr>) = succeeded"
    using main [THEN conjunct1, rule_format, of 1 "\<lparr>evaluations = 2, selectorWaits = 2, events = []\<rparr>"]
      player_playTarget
    by (simp add: racePage_def MAX_PLAY_CLICK_ATTEMPTS_def)
  have b: "fst (tileClickStrategyFn exampleConfig racePage tileProfile initialState) = succeeded"
    using main [THEN conjunct2, THEN conjunct2, rule_format, of 1] player_playTarget example_playTarget
    by (simp add: racePage_def MAX_PLAY_CLICK_ATTEMPTS_def initialState_def)
  have c: "fst (tileClickStrategyFn exampleConfig ?firstPage tileProfile initialState) =
     failed ''Play button found but has no dimensions.''"
    using first [THEN conjunct2, THEN conjunct1] player_playTarget
    by (simp add: racePage_def initialState_def)
  from a b c show ?thesis by simp
qed

section \<open>The coordinator\<close>

lemma map_of_strategies:
  "map_of (strategies ext cfg) name =
     (if name = ''foxGrid'' then Some (foxGridStrategy ext)
      else if name = ''guideGrid'' then Some (guideGridStrategy ext)
      else if name = ''hboGrid'' then Some (hboGridStrategy ext)
      else if name = ''slingGrid'' then Some (slingGridStrategy ext)
      else if name = ''thumbnailRow'' then Some (thumbnailRowStrategy ext)
      else if name = ''tileClick'' then Some (tileClickStrategy cfg)
      else if name = ''youtubeGrid'' then Some (youtubeGridStrategy ext)
      else None)"
  by (simp add: strategies_def)


lemma lookup_inherited:
  "name \<in> set objectPrototypeNames \<Longrightarrow> strategiesLookup ext cfg name = Some (Inherited name)"
  by (auto simp add: strategiesLookup_def map_of_strategies objectPrototypeNames_def)


lemma lookup_tileClick: "strategiesLookup ext cfg ''tileClick'' = Some (tileClickStrategy cfg)"
  by (simp add: strategiesLookup_def map_of_strategies)

lemma tileClick_not_skipped: "''tileClick'' \<notin> set skipImagePolling"
  by (simp add: skipImagePolling_def)

lemma pollImage_eq:
  "pollImage cfg pg profile st =
     (if strategy (channelSelection profile) \<in> set skipImagePolling then st
      else emit (WaitForFunction (channelSelector profile) (channelSelectorDelay cfg)) st)"
  by (simp add: pollImage_def waitForFunction_def)

lemma selectChannel_dispatches:
  assumes "strategy (channelSelection profile) \<noteq> ''none''" and "channelSelector profile = Some slug"
  shows "selectChannel ext cfg pg profile st =
           dispatch ext cfg pg \<lparr>channelSelection = channelSelection profile, channelSelector = slug\<rparr>
             (pollImage cfg pg \<lparr>channelSelection = channelSelection profile, channelSelector = slug\<rparr> st)"
  using assms by (simp add: selectChannel_def isChannelSelectionProfile_def narrowProfile_def)

text \<open>
  C5. If the strategy of the profile is "none", or the profile has no channel selector,
  selectChannel returns success at once and leaves the state of the run as it was: no
  evaluation, no wait, no event on the page or in the log, whatever the page is.
\<close>

theorem selectChannel_noop:
  assumes "strategy (channelSelection profile) = ''none'' \<or> channelSelector profile = None"
  shows "selectChannel ext cfg pg profile st = (Returned succeeded, st)"
  using assms
  by (auto simp add: selectChannel_def isChannelSelectionProfile_def narrowProfile_def)

theorem selectChannel_noop_witness:
  "selectChannel exampleImports exampleConfig stuckPage (profileOf ''none'' (Some ''espn'')) initialState
     = (Returned succeeded, initialState) \<and>
   selectChannel exampleImports exampleConfig stuckPage (profileOf ''tileClick'' None) initialState
     = (Returned succeeded, initialState)"
  using selectChannel_noop [of "profileOf ''none'' (Some ''espn'')" exampleImports exampleConfig stuckPage initialState]
    selectChannel_noop [of "profileOf ''tileClick'' None" exampleImports exampleConfig stuckPage initialState]
  by (simp add: profileOf_def)



text \<open>
  C1 (what the code does at the registered identifier tileClick). The registry binds
  "tileClick" to the entry object that tileClick.ts exports, selectChannel calls what it
  looked up as a function, and the call throws a TypeError after the image poll: the
  call does not end in a result.
\<close>

theorem selectChannel_tileClick_throws:
  assumes "strategy (channelSelection profile) = ''tileClick''"
    and "channelSelector profile = Some slug"
  shows "selectChannel ext cfg pg profile st =
           (Threw (TypeError ''strategyFn is not a function''),
            emit (WaitForFunction slug (channelSelectorDelay cfg)) st)"
  using assms
  by (simp add: selectChannel_dispatches pollImage_eq tileClick_not_skipped dispatch_def
      lookup_tileClick callStrategy_def tileClickStrategy_def)

theorem selectChannel_tileClick_throws_witness:
  "selectChannel exampleImports exampleConfig stuckPage
     \<lparr>channelSelection = \<lparr>strategy = ''tileClick'', playSelector = Some ''button.play''\<rparr>,
      channelSelector = Some ''espn''\<rparr> initialState =
     (Threw (TypeError ''strategyFn is not a function''),
      \<lparr>evaluations = 0, selectorWaits = 0, events = [WaitForFunction ''espn'' 3000]\<rparr>)"
  using selectChannel_tileClick_throws [of "\<lparr>channelSelection = \<lparr>strategy = ''tileClick'', playSelector = Some ''button.play''\<rparr>,
      channelSelector = Some ''espn''\<rparr>" "''espn''" exampleImports exampleConfig stuckPage initialState]
  by (simp add: initialState_def exampleConfig_def emit_def)




section \<open>The filtered channel list\<close>

lemma digit_iff: "(48 \<le> (of_char d :: nat) \<and> (of_char d :: nat) \<le> 57) \<longleftrightarrow> d \<in> set ''0123456789''"
proof
  assume "d \<in> set ''0123456789''"
  then show "48 \<le> (of_char d :: nat) \<and> (of_char d :: nat) \<le> 57" by auto
next
  assume h: "48 \<le> (of_char d :: nat) \<and> (of_char d :: nat) \<le> 57"
  have d: "d = char_of (of_char d :: nat)" by simp
  from h have "(of_char d :: nat) \<in> {48, 49, 50, 51, 52, 53, 54, 55, 56, 57}" by auto arith
  then have "char_of (of_char d :: nat) \<in> char_of ` {48, 49, 50, 51, 52, 53, 54, 55, 56, 57 :: nat}"
    by (rule imageI)
  also have "char_of ` {48, 49, 50, 51, 52, 53, 54, 55, 56, 57 :: nat} = set ''0123456789''"
  proof -
    have "char_of (48 :: nat) = CHR ''0''" "char_of (49 :: nat) = CHR ''1''"
      "char_of (50 :: nat) = CHR ''2''" "char_of (51 :: nat) = CHR ''3''"
      "char_of (52 :: nat) = CHR ''4''" "char_of (53 :: nat) = CHR ''5''"
      "char_of (54 :: nat) = CHR ''6''" "char_of (55 :: nat) = CHR ''7''"
      "char_of (56 :: nat) = CHR ''8''" "char_of (57 :: nat) = CHR ''9''"
      by code_simp+
    then show ?thesis by simp
  qed
  finally show "d \<in> set ''0123456789''" using d by simp
qed

lemma selectorMatches_iff:
  "selectorMatches lower stripped sel \<longleftrightarrow>
     stripped = sel \<or> (\<exists>d rest. d \<in> set ''0123456789'' \<and> lower = sel @ '' '' @ d # rest)"
proof -
  have "(startsWith lower (sel @ '' '') \<and> length lower > length sel + 1 \<and>
       codeBetween 48 (charCodeAt lower (length sel + 1)) 57)
     \<longleftrightarrow> (\<exists>d rest. d \<in> set ''0123456789'' \<and> lower = sel @ '' '' @ d # rest)" (is "?L \<longleftrightarrow> ?R")
  proof
    assume ?L
    then obtain zs where zs: "lower = (sel @ '' '') @ zs"
      by (auto simp: startsWith_def prefix_def)
    with \<open>?L\<close> obtain d rest where dr: "zs = d # rest" by (cases zs) auto
    with zs have nth: "lower ! (length sel + 1) = d"
      by (simp add: nth_append)
    with \<open>?L\<close> have "48 \<le> (of_char d :: nat) \<and> (of_char d :: nat) \<le> 57"
      by (auto simp add: charCodeAt_def codeBetween_def)
    then have "d \<in> set ''0123456789''" by (simp only: digit_iff)
    with zs dr show ?R by auto
  next
    assume ?R
    then obtain d rest where d: "d \<in> set ''0123456789''" and l: "lower = sel @ '' '' @ d # rest"
      by blast
    from d have "48 \<le> (of_char d :: nat) \<and> (of_char d :: nat) \<le> 57" by (simp only: digit_iff)
    with l show ?L
      by (simp add: startsWith_def charCodeAt_def codeBetween_def nth_append)
  qed
  then show ?thesis by (simp add: selectorMatches_def)
qed

lemma covered_iff:
  "covered known name \<longleftrightarrow>
     (\<exists>sel\<in>set known. stripParenthetical (toLowerCase name) = sel \<or>
        (\<exists>d rest. d \<in> set ''0123456789'' \<and> toLowerCase name = sel @ '' '' @ d # rest))"
  by (simp add: covered_def Let_def list_ex_iff selectorMatches_iff)

lemma filteredChannels_filtered:
  assumes "presetSuffix options = Some suffix_str" and "suffix_str \<noteq> []"
  shows "filteredChannels CHANNELS options =
           filter (\<lambda>name. \<not> covered (knownSelectors CHANNELS suffix_str (additionalKnownNames options)) name)
             (availableChannels options)"
  using assms by (simp add: filteredChannels_def)

lemma espn_known: "knownSelectors espnChannels ''-yttv'' None = [''espn'']"
  by code_simp

lemma espn_filtered: "filteredChannels espnChannels espnOptions = [''ESPN News'']"
  by code_simp

lemma espn_log:
  "logAvailableChannels espnChannels espnOptions =
     [LogWarn availableChannelsFormat
        [Str ''espnu'', Str ''YouTube TV'', Str ''https://tv.example/guide'',
         Str ''uncovered (1 of 4)'', Str ''ESPN News'']]"
  by code_simp

lemma strip_no_paren: "s = [] \<or> last s \<noteq> CHR '')'' \<Longrightarrow> stripParenthetical s = s"
proof (induction s)
  case Nil
  then show ?case by simp
next
  case (Cons c cs)
  then have "\<not> matchesParenthetical (c # cs)"
    by (auto simp: matchesParenthetical_def split: list.splits if_splits)
  moreover have "cs = [] \<or> last cs \<noteq> CHR '')''" using Cons.prems by (auto split: if_splits)
  ultimately show ?case using Cons.IH by simp
qed

lemma strip_trailing:
  assumes "CHR ''('' \<notin> set s" and "\<not> list_ex isLineTerminator inner"
  shows "stripParenthetical (s @ '' ('' @ inner @ '')'') = s"
  using assms(1)
proof (induction s)
  case Nil
  then show ?case using assms(2) by (simp add: matchesParenthetical_def)
next
  case (Cons c cs)
  have "\<not> matchesParenthetical ((c # cs) @ '' ('' @ inner @ '')'')"
    using Cons.prems by (cases cs) (auto simp: matchesParenthetical_def)
  then show ?case using Cons by simp
qed

lemma knownSelectors_drop_empty:
  assumes "channelSelector_of ch = None \<or> channelSelector_of ch = Some []"
  shows "knownSelectors (pre @ (key, ch) # post) suffix_str additional =
         knownSelectors (pre @ post) suffix_str additional"
  using assms by (auto simp add: knownSelectors_def toLowerCase_def)

lemma covered_lower: "toLowerCase a = toLowerCase b \<Longrightarrow> covered known a = covered known b"
  by (simp add: covered_def)

lemma knownSelectors_lower:
  "knownSelectors CHANNELS suffix_str additional =
     knownSelectors (map lowerPreset CHANNELS) suffix_str (map_option (map toLowerCase) additional)"
proof -
  have a: "map (\<lambda>(key, ch). toLowerCase (case channelSelector_of ch of None \<Rightarrow> [] | Some s \<Rightarrow> s))
         (filter (\<lambda>(key, ch). endsWith key suffix_str) (map lowerPreset CHANNELS))
      = map (\<lambda>(key, ch). toLowerCase (case channelSelector_of ch of None \<Rightarrow> [] | Some s \<Rightarrow> s))
         (filter (\<lambda>(key, ch). endsWith key suffix_str) CHANNELS)"
    by (induction CHANNELS)
       (auto simp add: lowerPreset_def toLowerCase_idem split: option.splits)
  have b: "(case map_option (map toLowerCase) additional of None \<Rightarrow> [] | Some names \<Rightarrow> map toLowerCase names)
      = (case additional of None \<Rightarrow> [] | Some names \<Rightarrow> map toLowerCase names)"
    by (cases additional) (simp_all add: toLowerCase_idem)
  show ?thesis unfolding knownSelectors_def a b ..
qed

text \<open>
  C7. In filtered mode the dump lists exactly the discovered names that are not covered.
  A name is covered, both sides lowercased, iff for some known selector the name with
  its trailing parenthetical stripped equals the selector, or the name begins with the
  selector followed by one space and an ASCII digit. Stripping removes a final
  " (...)" and leaves a name that does not end in a closing parenthesis as it is. With
  the preset selector "ESPN" and the discovered names "ESPN", "ESPN 2", "ESPN News",
  "ESPN (West)", the known selectors are ["espn"] and only "ESPN News" is listed.
\<close>

theorem logAvailableChannels_coverage:
  assumes "presetSuffix options = Some suffix_str" and "suffix_str \<noteq> []"
  shows "filteredChannels CHANNELS options =
           filter (\<lambda>name. \<not> covered (knownSelectors CHANNELS suffix_str (additionalKnownNames options)) name)
             (availableChannels options) \<and>
         (\<forall>known name. covered known name \<longleftrightarrow>
            (\<exists>sel\<in>set known. stripParenthetical (toLowerCase name) = sel \<or>
               (\<exists>d rest. d \<in> set ''0123456789'' \<and> toLowerCase name = sel @ '' '' @ d # rest))) \<and>
         (\<forall>s inner. CHR ''('' \<notin> set s \<and> \<not> list_ex isLineTerminator inner \<longrightarrow>
            stripParenthetical (s @ '' ('' @ inner @ '')'') = s) \<and>
         (\<forall>s. s = [] \<or> last s \<noteq> CHR '')'' \<longrightarrow> stripParenthetical s = s) \<and>
         knownSelectors espnChannels ''-yttv'' None = [''espn''] \<and>
         filteredChannels espnChannels espnOptions = [''ESPN News''] \<and>
         logAvailableChannels espnChannels espnOptions =
           [LogWarn availableChannelsFormat
              [Str ''espnu'', Str ''YouTube TV'', Str ''https://tv.example/guide'',
               Str ''uncovered (1 of 4)'', Str ''ESPN News'']]"
  using filteredChannels_filtered [OF assms, of CHANNELS] covered_iff strip_trailing strip_no_paren
    espn_known espn_filtered espn_log
  by blast

theorem logAvailableChannels_coverage_witness:
  "filteredChannels espnChannels espnOptions =
     filter (\<lambda>name. \<not> covered (knownSelectors espnChannels ''-yttv'' None) name)
       [''ESPN'', ''ESPN 2'', ''ESPN News'', ''ESPN (West)''] \<and>
   covered [''espn''] ''ESPN (West)'' \<and> covered [''espn''] ''ESPN 2'' \<and>
   \<not> covered [''espn''] ''ESPN News''"
proof -
  have a: "covered [''espn''] ''ESPN (West)''" "covered [''espn''] ''ESPN 2''"
    "\<not> covered [''espn''] ''ESPN News''"
    by code_simp+
  have p: "presetSuffix espnOptions = Some ''-yttv''" "''-yttv'' \<noteq> []"
    by (simp_all add: espnOptions_def)
  have av: "availableChannels espnOptions = [''ESPN'', ''ESPN 2'', ''ESPN News'', ''ESPN (West)'']"
    by (simp add: espnOptions_def)
  have "additionalKnownNames espnOptions = None" by (simp add: espnOptions_def)
  with logAvailableChannels_coverage [OF p, of espnChannels, THEN conjunct1]
  have "filteredChannels espnChannels espnOptions =
     filter (\<lambda>name. \<not> covered (knownSelectors espnChannels ''-yttv'' None) name)
       (availableChannels espnOptions)" by (simp only:)
  with a show ?thesis unfolding av by blast
qed

text \<open>
  C10. In filtered mode a preset whose channel selector is absent or empty adds nothing
  to the known selectors: with or without it the known selectors, the list and the log
  line are the same. Coverage is decided on lowercased copies: names that are equal
  when lowercased are covered alike, and lowercasing the preset selectors and the
  additional names beforehand changes nothing. The list is a subsequence of the
  discovered names as they were given.
\<close>

theorem logAvailableChannels_empty_selector_and_case:
  "(channelSelector_of ch = None \<or> channelSelector_of ch = Some [] \<longrightarrow>
      knownSelectors (pre @ (key, ch) # post) suffix_str additional =
        knownSelectors (pre @ post) suffix_str additional \<and>
      filteredChannels (pre @ (key, ch) # post) options = filteredChannels (pre @ post) options \<and>
      logAvailableChannels (pre @ (key, ch) # post) options = logAvailableChannels (pre @ post) options) \<and>
   (toLowerCase a = toLowerCase b \<longrightarrow> covered known a = covered known b) \<and>
   knownSelectors CHANNELS suffix_str additional =
     knownSelectors (map lowerPreset CHANNELS) suffix_str (map_option (map toLowerCase) additional) \<and>
   subseq (filteredChannels CHANNELS options) (availableChannels options)"
proof -
  have 1: "knownSelectors (pre @ (key, ch) # post) sfx additional =
        knownSelectors (pre @ post) sfx additional"
    if "channelSelector_of ch = None \<or> channelSelector_of ch = Some []" for sfx additional
    using that by (rule knownSelectors_drop_empty)
  have 2: "filteredChannels (pre @ (key, ch) # post) options = filteredChannels (pre @ post) options"
    if "channelSelector_of ch = None \<or> channelSelector_of ch = Some []"
    using 1 [OF that] by (simp add: filteredChannels_def split: option.splits)
  have 3: "logAvailableChannels (pre @ (key, ch) # post) options = logAvailableChannels (pre @ post) options"
    if "channelSelector_of ch = None \<or> channelSelector_of ch = Some []"
    using 2 [OF that] by (simp add: logAvailableChannels_def countLabel_def split: option.splits)
  have 4: "subseq (filteredChannels CHANNELS options) (availableChannels options)"
    by (simp add: filteredChannels_def split: option.splits)
  from 1 2 3 4 covered_lower [of a b known] knownSelectors_lower [of CHANNELS suffix_str additional]
  show ?thesis by blast
qed

theorem logAvailableChannels_empty_selector_and_case_witness:
  "filteredChannels espnChannels espnOptions =
     filteredChannels [(''espn-yttv'', \<lparr>channelSelector_of = Some ''ESPN''\<rparr>),
                       (''espn-hulu'', \<lparr>channelSelector_of = Some ''ESPN News''\<rparr>)] espnOptions \<and>
   covered [''espn''] ''Espn 2'' = covered [''espn''] ''ESPN 2'' \<and>
   subseq (filteredChannels espnChannels espnOptions) [''ESPN'', ''ESPN 2'', ''ESPN News'', ''ESPN (West)'']"
proof -
  have l: "toLowerCase ''Espn 2'' = toLowerCase ''ESPN 2''" by code_simp
  from logAvailableChannels_empty_selector_and_case
    [of "\<lparr>channelSelector_of = None\<rparr>" "[(''espn-yttv'', \<lparr>channelSelector_of = Some ''ESPN''\<rparr>)]"
        "''local-yttv''" "[(''espn-hulu'', \<lparr>channelSelector_of = Some ''ESPN News''\<rparr>)]"
        "''-yttv''" None espnOptions "''Espn 2''" "''ESPN 2''" "[''espn'']" espnChannels] l
  show ?thesis by (auto simp add: espnChannels_def espnOptions_def)
qed

section \<open>The Locate phase of the tile strategy\<close>

lemma walk_takeWhile:
  "walkAncestors d sc as pf = walkAncestors d sc (takeWhile (\<lambda>e. \<not> isBody e) as) pf"
  by (induction as arbitrary: sc pf) (simp_all add: Let_def)

lemma scrolledAt_Suc:
  "scrolledAt sc (a # as) (Suc j) =
     scrolledAt (if semanticClickable a then sc @ [el_id a] else sc) as j"
  by (simp add: scrolledAt_def)

lemma scrolledAfter_Cons:
  "scrolledAfter sc (a # as) =
     scrolledAfter (if semanticClickable a then sc @ [el_id a] else sc) as"
  by (simp add: scrolledAfter_def)

lemma semanticMatch_0:
  "semanticMatch d sc (a # as) 0 =
     (semanticClickable a \<and> positiveArea (boundingRect d (sc @ [el_id a]) (el_id a)))"
  by (auto simp add: semanticMatch_def scrolledAt_def)

lemma semanticMatch_Suc:
  "semanticMatch d sc (a # as) (Suc j) =
     semanticMatch d (if semanticClickable a then sc @ [el_id a] else sc) as j"
  by (simp add: semanticMatch_def scrolledAt_Suc)

lemma pointerMatch_0:
  "pointerMatch d sc (a # as) 0 =
     pointerCandidate d (if semanticClickable a then sc @ [el_id a] else sc) a"
  by (simp add: pointerMatch_def scrolledAt_def)

lemma pointerMatch_Suc:
  "pointerMatch d sc (a # as) (Suc j) =
     pointerMatch d (if semanticClickable a then sc @ [el_id a] else sc) as j"
  by (simp add: pointerMatch_def scrolledAt_Suc)

lemma walk_semantic:
  assumes "\<forall>e\<in>set as. \<not> isBody e" and "i < length as"
    and "semanticMatch d sc as i" and "\<forall>j<i. \<not> semanticMatch d sc as j"
  shows "fst (snd (walkAncestors d sc as pf)) =
           Some (center (boundingRect d (scrolledAt sc as i) (el_id (as ! i))))"
  using assms
proof (induction as arbitrary: sc pf i)
  case Nil
  then show ?case by simp
next
  case (Cons a as)
  show ?case
  proof (cases i)
    case 0
    with Cons.prems show ?thesis
      by (simp add: semanticMatch_0 scrolledAt_def Let_def)
  next
    case (Suc i')
    let ?sc1 = "if semanticClickable a then sc @ [el_id a] else sc"
    from Cons.prems Suc have no0: "\<not> semanticMatch d sc (a # as) 0" by blast
    have m: "semanticMatch d ?sc1 as i'"
      using Cons.prems(3) Suc by (simp add: semanticMatch_Suc)
    have before: "\<forall>j<i'. \<not> semanticMatch d ?sc1 as j"
    proof (intro allI impI)
      fix j assume "j < i'"
      then have "Suc j < i" using Suc by simp
      then have "\<not> semanticMatch d sc (a # as) (Suc j)" using Cons.prems(4) by blast
      then show "\<not> semanticMatch d ?sc1 as j" by (simp add: semanticMatch_Suc)
    qed
    have nb: "\<forall>e\<in>set as. \<not> isBody e" and na: "\<not> isBody a" using Cons.prems(1) by simp_all
    have lt: "i' < length as" using Cons.prems(2) Suc by simp
    note ih = Cons.IH [OF nb lt m before]
    have step: "walkAncestors d sc (a # as) pf =
       walkAncestors d ?sc1 as
         (if pf = None then (if pointerCandidate d ?sc1 a then Some a else None) else pf)"
      using no0 na by (auto simp add: semanticMatch_0 Let_def)
    show ?thesis using ih Suc by (simp only: step scrolledAt_Suc nth_Cons_Suc)
  qed
qed

lemma walk_no_semantic:
  assumes "\<forall>e\<in>set as. \<not> isBody e" and "\<forall>j<length as. \<not> semanticMatch d sc as j"
  shows "fst (walkAncestors d sc as pf) = scrolledAfter sc as \<and>
         fst (snd (walkAncestors d sc as pf)) = None"
  using assms
proof (induction as arbitrary: sc pf)
  case Nil
  then show ?case by (simp add: scrolledAfter_def)
next
  case (Cons a as)
  let ?sc1 = "if semanticClickable a then sc @ [el_id a] else sc"
  from Cons.prems have no0: "\<not> semanticMatch d sc (a # as) 0" by auto
  have rest: "\<forall>j<length as. \<not> semanticMatch d ?sc1 as j"
  proof (intro allI impI)
    fix j assume "j < length as"
    then have "\<not> semanticMatch d sc (a # as) (Suc j)" using Cons.prems(2) by auto
    then show "\<not> semanticMatch d ?sc1 as j" by (simp add: semanticMatch_Suc)
  qed
  have nb: "\<forall>e\<in>set as. \<not> isBody e" and na: "\<not> isBody a" using Cons.prems(1) by simp_all
  have step: "walkAncestors d sc (a # as) pf =
       walkAncestors d ?sc1 as
         (if pf = None then (if pointerCandidate d ?sc1 a then Some a else None) else pf)"
    using no0 na by (auto simp add: semanticMatch_0 Let_def)
  show ?case using Cons.IH [OF nb rest] by (simp only: step scrolledAfter_Cons)
qed

lemma walk_keeps_fallback:
  "snd (snd (walkAncestors d sc as (Some p))) = Some p"
  by (induction as arbitrary: sc) (simp_all add: Let_def)

lemma walk_pointer:
  assumes "\<forall>e\<in>set as. \<not> isBody e" and "\<forall>j<length as. \<not> semanticMatch d sc as j"
    and "i < length as" and "pointerMatch d sc as i" and "\<forall>j<i. \<not> pointerMatch d sc as j"
  shows "snd (snd (walkAncestors d sc as None)) = Some (as ! i)"
  using assms
proof (induction as arbitrary: sc i)
  case Nil
  then show ?case by simp
next
  case (Cons a as)
  let ?sc1 = "if semanticClickable a then sc @ [el_id a] else sc"
  from Cons.prems have no0: "\<not> semanticMatch d sc (a # as) 0" by auto
  have nb: "\<forall>e\<in>set as. \<not> isBody e" and na: "\<not> isBody a" using Cons.prems(1) by simp_all
  have step: "walkAncestors d sc (a # as) None =
       walkAncestors d ?sc1 as (if pointerCandidate d ?sc1 a then Some a else None)"
    using no0 na by (auto simp add: semanticMatch_0 Let_def)
  show ?case
  proof (cases i)
    case 0
    with Cons.prems(4) have "pointerCandidate d ?sc1 a" by (simp add: pointerMatch_0)
    with step 0 show ?thesis by (simp add: walk_keeps_fallback)
  next
    case (Suc i')
    have rest: "\<forall>j<length as. \<not> semanticMatch d ?sc1 as j"
    proof (intro allI impI)
      fix j assume "j < length as"
      then have "\<not> semanticMatch d sc (a # as) (Suc j)" using Cons.prems(2) by auto
      then show "\<not> semanticMatch d ?sc1 as j" by (simp add: semanticMatch_Suc)
    qed
    from Cons.prems(5) Suc have "\<not> pointerMatch d sc (a # as) 0" by blast
    then have np: "\<not> pointerCandidate d ?sc1 a" by (simp add: pointerMatch_0)
    have m: "pointerMatch d ?sc1 as i'" using Cons.prems(4) Suc by (simp add: pointerMatch_Suc)
    have before: "\<forall>j<i'. \<not> pointerMatch d ?sc1 as j"
    proof (intro allI impI)
      fix j assume "j < i'"
      then have "Suc j < i" using Suc by simp
      then have "\<not> pointerMatch d sc (a # as) (Suc j)" using Cons.prems(5) by blast
      then show "\<not> pointerMatch d ?sc1 as j" by (simp add: pointerMatch_Suc)
    qed
    have lt: "i' < length as" using Cons.prems(3) Suc by simp
    from Cons.IH [OF nb rest lt m before] step np Suc show ?thesis by simp
  qed
qed

lemma walk_no_pointer:
  assumes "\<forall>e\<in>set as. \<not> isBody e" and "\<forall>j<length as. \<not> semanticMatch d sc as j"
    and "\<forall>j<length as. \<not> pointerMatch d sc as j"
  shows "snd (snd (walkAncestors d sc as None)) = None"
  using assms
proof (induction as arbitrary: sc)
  case Nil
  then show ?case by simp
next
  case (Cons a as)
  let ?sc1 = "if semanticClickable a then sc @ [el_id a] else sc"
  from Cons.prems have no0: "\<not> semanticMatch d sc (a # as) 0" by auto
  have nb: "\<forall>e\<in>set as. \<not> isBody e" and na: "\<not> isBody a" using Cons.prems(1) by simp_all
  have step: "walkAncestors d sc (a # as) None =
       walkAncestors d ?sc1 as (if pointerCandidate d ?sc1 a then Some a else None)"
    using no0 na by (auto simp add: semanticMatch_0 Let_def)
  have rest: "\<forall>j<length as. \<not> semanticMatch d ?sc1 as j"
  proof (intro allI impI)
    fix j assume "j < length as"
    then have "\<not> semanticMatch d sc (a # as) (Suc j)" using Cons.prems(2) by auto
    then show "\<not> semanticMatch d ?sc1 as j" by (simp add: semanticMatch_Suc)
  qed
  have prest: "\<forall>j<length as. \<not> pointerMatch d ?sc1 as j"
  proof (intro allI impI)
    fix j assume "j < length as"
    then have "\<not> pointerMatch d sc (a # as) (Suc j)" using Cons.prems(3) by auto
    then show "\<not> pointerMatch d ?sc1 as j" by (simp add: pointerMatch_Suc)
  qed
  from Cons.prems(3) have "\<not> pointerMatch d sc (a # as) 0" by auto
  then have np: "\<not> pointerCandidate d ?sc1 a" by (simp add: pointerMatch_0)
  from Cons.IH [OF nb rest prest] step np show ?case by simp
qed


lemma walked_no_body: "\<forall>e\<in>set (walked im). \<not> isBody e"
  by (auto simp add: walked_def dest: set_takeWhileD)

lemma walk_walked: "walkAncestors d sc (parents im) pf = walkAncestors d sc (walked im) pf"
  unfolding walked_def by (rule walk_takeWhile)

lemma findTile_skip:
  "\<not> qualifies d slug sc im \<Longrightarrow> findTile d slug sc (im # rest) = findTile d slug sc rest"
  by (auto simp add: qualifies_def)

lemma findTile_skip_all:
  "\<forall>x\<in>set skipped. \<not> qualifies d slug sc x \<Longrightarrow>
     findTile d slug sc (skipped @ rest) = findTile d slug sc rest"
  by (induction skipped) (simp_all add: findTile_skip del: findTile.simps)

lemma findTile_semantic:
  assumes "qualifies d slug sc im" and "i < length (walked im)"
    and "semanticMatch d sc (walked im) i" and "\<forall>j<i. \<not> semanticMatch d sc (walked im) j"
  shows "findTile d slug sc (im # rest) =
           Some (center (boundingRect d (scrolledAt sc (walked im) i) (el_id (walked im ! i))))"
proof -
  obtain sc1 r pf where w: "walkAncestors d sc (parents im) None = (sc1, r, pf)"
    by (cases "walkAncestors d sc (parents im) None") auto
  from walk_semantic [OF walked_no_body assms(2,3,4), of None]
  have "r = Some (center (boundingRect d (scrolledAt sc (walked im) i) (el_id (walked im ! i))))"
    using w by (simp add: walk_walked [symmetric])
  with w assms(1) show ?thesis by (simp add: qualifies_def)
qed

lemma findTile_pointer:
  assumes "qualifies d slug sc im"
    and "\<forall>j<length (walked im). \<not> semanticMatch d sc (walked im) j"
    and "i < length (walked im)" and "pointerMatch d sc (walked im) i"
    and "\<forall>j<i. \<not> pointerMatch d sc (walked im) j"
  shows "findTile d slug sc (im # rest) =
           (let scrolled2 = scrolledAfter sc (walked im) @ [el_id (walked im ! i)];
                rect = boundingRect d scrolled2 (el_id (walked im ! i))
            in if positiveArea rect then Some (center rect) else findTile d slug scrolled2 rest)"
proof -
  obtain sc1 r pf where w: "walkAncestors d sc (parents im) None = (sc1, r, pf)"
    by (cases "walkAncestors d sc (parents im) None") auto
  from walk_no_semantic [OF walked_no_body assms(2), of None]
  have a: "sc1 = scrolledAfter sc (walked im)" "r = None"
    using w by (simp_all add: walk_walked [symmetric])
  from walk_pointer [OF walked_no_body assms(2,3,4,5)]
  have b: "pf = Some (walked im ! i)"
    using w by (simp add: walk_walked [symmetric])
  from w a b assms(1) show ?thesis by (simp add: qualifies_def Let_def)
qed

lemma findTile_neither:
  assumes "qualifies d slug sc im"
    and "\<forall>j<length (walked im). \<not> semanticMatch d sc (walked im) j"
    and "\<forall>j<length (walked im). \<not> pointerMatch d sc (walked im) j"
  shows "findTile d slug sc (im # rest) = findTile d slug (scrolledAfter sc (walked im)) rest"
proof -
  obtain sc1 r pf where w: "walkAncestors d sc (parents im) None = (sc1, r, pf)"
    by (cases "walkAncestors d sc (parents im) None") auto
  from walk_no_semantic [OF walked_no_body assms(2), of None]
  have a: "sc1 = scrolledAfter sc (walked im)" "r = None"
    using w by (simp_all add: walk_walked [symmetric])
  from walk_no_pointer [OF walked_no_body assms(2,3)]
  have b: "pf = None"
    using w by (simp add: walk_walked [symmetric])
  from w a b assms(1) show ?thesis by (simp add: qualifies_def)
qed

lemma tile_not_found:
  "tileTarget (document_at pg (evaluations st)) (channelSelector profile) = None \<Longrightarrow>
     fst (tileClickStrategyFn cfg pg profile st) = failed ''Channel tile not found in page images.''"
  by (simp add: tileClickStrategyFn_def evaluateTile_def)

text \<open>
  C9 as stated fails: when neither tier yields a target from the first image that
  qualifies, Locate does not fail. In \<open>twoTileDocument\<close> the first image that contains
  the slug has positive area and no clickable ancestor, the walk from it ends with no
  target and no fallback, and the search goes on to the second image, whose anchor is
  clicked.
\<close>

theorem tile_locate_next_image:
  "images twoTileDocument = [bareImage, exampleImage] \<and>
   qualifies twoTileDocument ''espn'' [] bareImage \<and>
   walkAncestors twoTileDocument [] (parents bareImage) None = ([], None, None) \<and>
   tileTarget twoTileDocument ''espn'' = Some exampleTarget \<and>
   fst (tileClickStrategyFn exampleConfig twoTilePage autoPlayProfile initialState) = succeeded"
proof -
  have a: "images twoTileDocument = [bareImage, exampleImage]"
    by (simp add: tile_defs example_defs)
  have b: "qualifies twoTileDocument ''espn'' [] bareImage"
    by (simp add: qualifies_def tile_defs example_defs includes_examples positiveArea_def)
  have c: "walkAncestors twoTileDocument [] (parents bareImage) None = ([], None, None)"
    by (simp add: tile_defs example_defs semanticClickable_def pointerCandidate_def)
  have d: "fst (tileClickStrategyFn exampleConfig twoTilePage autoPlayProfile initialState) = succeeded"
    using twoTile_target
    by (simp add: tileClickStrategyFn_def evaluateTile_def scrollAndClick_def twoTilePage_def
        autoPlayProfile_def stuckPage_def initialState_def)
  from a b c d twoTile_target show ?thesis by simp
qed

text \<open>
  C9, amended. Locate tries the images in document order and skips those that do not
  qualify (source containing the slug, box of positive area). For an image that
  qualifies, walking from its parent up to and without \<open>document.body\<close>: the target is
  the centre of the first semantic clickable ancestor (anchor, button, button role,
  click-handler attribute) whose box, read after scrolling it into view, has positive
  area; only if no ancestor is a semantic match, the nearest pointer match (box more
  than 20 wide and high, pointer cursor) is scrolled into view and its centre is the
  target when its box has positive area; if neither tier yields a target, the search
  goes on with the next image. With no image left Locate returns nothing, and the call
  fails with "Channel tile not found in page images.".
\<close>

theorem tile_locate:
  "findTile d slug scrolled [] = None \<and>
   (tileTarget (document_at pg (evaluations st)) (channelSelector profile) = None \<longrightarrow>
      fst (tileClickStrategyFn cfg pg profile st) = failed ''Channel tile not found in page images.'') \<and>
   ((\<forall>x\<in>set skipped. \<not> qualifies d slug scrolled x) \<longrightarrow>
      findTile d slug scrolled (skipped @ rest) = findTile d slug scrolled rest) \<and>
   (qualifies d slug scrolled im \<and> i < length (walked im) \<and>
    semanticMatch d scrolled (walked im) i \<and> (\<forall>j<i. \<not> semanticMatch d scrolled (walked im) j) \<longrightarrow>
      findTile d slug scrolled (im # rest) =
        Some (center (boundingRect d (scrolledAt scrolled (walked im) i) (el_id (walked im ! i))))) \<and>
   (qualifies d slug scrolled im \<and>
    (\<forall>j<length (walked im). \<not> semanticMatch d scrolled (walked im) j) \<and>
    i < length (walked im) \<and> pointerMatch d scrolled (walked im) i \<and>
    (\<forall>j<i. \<not> pointerMatch d scrolled (walked im) j) \<longrightarrow>
      findTile d slug scrolled (im # rest) =
        (let scrolled2 = scrolledAfter scrolled (walked im) @ [el_id (walked im ! i)];
             rect = boundingRect d scrolled2 (el_id (walked im ! i))
         in if positiveArea rect then Some (center rect) else findTile d slug scrolled2 rest)) \<and>
   (qualifies d slug scrolled im \<and>
    (\<forall>j<length (walked im). \<not> semanticMatch d scrolled (walked im) j) \<and>
    (\<forall>j<length (walked im). \<not> pointerMatch d scrolled (walked im) j) \<longrightarrow>
      findTile d slug scrolled (im # rest) =
        findTile d slug (scrolledAfter scrolled (walked im)) rest)"
  using findTile_skip_all [of skipped d slug scrolled rest]
    findTile_semantic [of d slug scrolled im i rest]
    findTile_pointer [of d slug scrolled im i rest]
    findTile_neither [of d slug scrolled im rest]
    tile_not_found [of pg st profile cfg]
  by simp

theorem tile_locate_witness:
  "findTile exampleDocument ''espn'' [] [otherImage, exampleImage] =
     findTile exampleDocument ''espn'' [] [exampleImage] \<and>
   findTile exampleDocument ''espn'' [] [exampleImage] = Some exampleTarget \<and>
   findTile exampleDocument ''espn'' [] [pointerImage] = Some exampleTarget \<and>
   findTile exampleDocument ''espn'' [] [bareImage, exampleImage] =
     findTile exampleDocument ''espn'' [] [exampleImage] \<and>
   fst (tileClickStrategyFn exampleConfig (stuckPage\<lparr>document_at := (\<lambda>k. playerDocument)\<rparr>)
          autoPlayProfile initialState) = failed ''Channel tile not found in page images.''"
proof -
  let ?d = exampleDocument
  have q: "qualifies ?d ''espn'' [] exampleImage" "qualifies ?d ''espn'' [] pointerImage"
    "qualifies ?d ''espn'' [] bareImage" "\<not> qualifies ?d ''espn'' [] otherImage"
    by (simp_all add: qualifies_def tile_defs example_defs includes_examples includes_espn
        positiveArea_def)
  have w: "walked exampleImage = [exampleAnchor]" "walked pointerImage = [plainDiv, pointerDiv]"
    "walked bareImage = [plainDiv]"
    by (simp_all add: walked_def tile_defs example_defs)
  have s1: "semanticMatch ?d [] [exampleAnchor] 0"
    by (simp add: semanticMatch_def scrolledAt_def semanticClickable_def positiveArea_def example_defs)
  have s2: "\<forall>j<2. \<not> semanticMatch ?d [] [plainDiv, pointerDiv] j"
    by (simp add: semanticMatch_def semanticClickable_def tile_defs less_Suc_eq numeral_2_eq_2)
  have s3: "\<forall>j<1. \<not> semanticMatch ?d [] [plainDiv] j"
    by (simp add: semanticMatch_def semanticClickable_def tile_defs)
  have p2: "pointerMatch ?d [] [plainDiv, pointerDiv] 1" "\<forall>j<1. \<not> pointerMatch ?d [] [plainDiv, pointerDiv] j"
    by (simp_all add: pointerMatch_def pointerCandidate_def scrolledAt_def semanticClickable_def
        tile_defs example_defs)
  have p3: "\<forall>j<1. \<not> pointerMatch ?d [] [plainDiv] j"
    by (simp add: pointerMatch_def pointerCandidate_def tile_defs)
  have none: "tileTarget (document_at (stuckPage\<lparr>document_at := (\<lambda>k. playerDocument)\<rparr>)
      (evaluations initialState)) (channelSelector autoPlayProfile) = None"
    by (simp add: tileTarget_def example_defs)
  have a: "findTile ?d ''espn'' [] [otherImage, exampleImage] = findTile ?d ''espn'' [] [exampleImage]"
    using tile_locate [of ?d "''espn''" "[]" stuckPage initialState tileProfile exampleConfig
        "[otherImage]" "[exampleImage]" exampleImage 0] q
    by simp
  have b: "findTile ?d ''espn'' [] [exampleImage] = Some exampleTarget"
    using tile_locate [of ?d "''espn''" "[]" stuckPage initialState tileProfile exampleConfig
        "[]" "[]" exampleImage 0] q w s1
    by (simp add: scrolledAt_def semanticClickable_def center_def example_defs)
  have c: "findTile ?d ''espn'' [] [pointerImage] = Some exampleTarget"
    using tile_locate [of ?d "''espn''" "[]" stuckPage initialState tileProfile exampleConfig
        "[]" "[]" pointerImage 1] q w s2 p2
    by (simp add: scrolledAfter_def semanticClickable_def center_def positiveArea_def
        example_defs tile_defs)
  have d: "findTile ?d ''espn'' [] [bareImage, exampleImage] = findTile ?d ''espn'' [] [exampleImage]"
    using tile_locate [of ?d "''espn''" "[]" stuckPage initialState tileProfile exampleConfig
        "[]" "[exampleImage]" bareImage 0] q w s3 p3
    by (simp add: scrolledAfter_def semanticClickable_def tile_defs)
  have e: "fst (tileClickStrategyFn exampleConfig (stuckPage\<lparr>document_at := (\<lambda>k. playerDocument)\<rparr>)
          autoPlayProfile initialState) = failed ''Channel tile not found in page images.''"
    using tile_locate [of ?d "''espn''" "[]" "stuckPage\<lparr>document_at := (\<lambda>k. playerDocument)\<rparr>"
        initialState autoPlayProfile exampleConfig "[]" "[]" exampleImage 0] none
    by simp
  from a b c d e show ?thesis by simp
qed

end
